theory Spec2Isabelle
  imports Main "HOL-Library.Word"
begin

section \<open>Data model of \<^verbatim>\<open>cmd/vinegar/binary.go\<close>\<close>

text \<open>
  The Go program launches Roblox under Wine. Its \<^verbatim>\<open>Binary\<close> struct holds pointers
  into a configuration and a persisted state that are shared with the caller:
  \<^verbatim>\<open>NewBinary\<close> sets \<^verbatim>\<open>Config\<close> to \<^verbatim>\<open>&cfg.Player\<close> or \<^verbatim>\<open>&cfg.Studio\<close> and
  \<^verbatim>\<open>GlobalConfig\<close> to \<^verbatim>\<open>cfg\<close>, so a write through \<^verbatim>\<open>b.Config\<close> is a write into
  \<^verbatim>\<open>*b.GlobalConfig\<close>. The model keeps this aliasing: the record holds the pointee of
  \<^verbatim>\<open>GlobalConfig\<close> and \<^verbatim>\<open>GlobalState\<close>, and \<^verbatim>\<open>Config\<close> and \<^verbatim>\<open>State\<close> are addresses
  into them.
\<close>

datatype BinaryType = Player | Studio

text \<open>The two addresses that \<^verbatim>\<open>NewBinary\<close> takes: \<^verbatim>\<open>&x.Player\<close> and \<^verbatim>\<open>&x.Studio\<close>.\<close>

datatype addr = AddrPlayer | AddrStudio

text \<open>
  \<^verbatim>\<open>config.Binary\<close>, \<^verbatim>\<open>config.Config\<close>, \<^verbatim>\<open>state.Binary\<close> and \<^verbatim>\<open>state.State\<close> are
  declared in other packages; the records have the fields that \<^verbatim>\<open>binary.go\<close> reads
  or writes.
\<close>

record config_Binary =
  Channel :: string
  Launcher :: string
  WineRoot :: string
  DiscordRPC :: bool
  GameMode :: bool
  Env :: "(string \<times> string) list"

record config_Splash =
  Enabled :: bool

record config_Config =
  cfg_Player :: config_Binary
  cfg_Studio :: config_Binary
  cfg_Splash :: config_Splash
  MultipleInstances :: bool

record state_Binary =
  Version :: string

record state_State =
  st_Player :: state_Binary
  st_Studio :: state_Binary

datatype Writer = OsStderr | FileWriter string | MultiWriter "Writer list"

record wine_Prefix =
  pfx_dir :: string
  pfx_Stderr :: "Writer option"
  pfx_Stdout :: "Writer option"

record splash_Splash =
  LogPath :: string

text \<open>
  The struct \<^verbatim>\<open>Binary\<close>. \<^verbatim>\<open>Splash\<close> is nil until \<^verbatim>\<open>Main\<close> sets it; \<^verbatim>\<open>Deploy\<close> and
  \<^verbatim>\<open>Activity\<close> are only passed on by this file.
\<close>

record Binary =
  Splash :: "splash_Splash option"
  GlobalState :: state_State
  State :: addr
  GlobalConfig :: config_Config
  Config :: addr
  Alias :: string
  Name :: string
  Dir :: string
  Prefix :: wine_Prefix
  Type :: BinaryType
  Deploy :: "string option"
  Auth :: bool
  Activity :: unit

text \<open>Reading and writing through the pointer \<^verbatim>\<open>b.Config\<close>.\<close>

fun cfg_at :: "config_Config \<Rightarrow> addr \<Rightarrow> config_Binary" where
  "cfg_at g AddrPlayer = cfg_Player g"
| "cfg_at g AddrStudio = cfg_Studio g"

fun cfg_store :: "config_Config \<Rightarrow> addr \<Rightarrow> config_Binary \<Rightarrow> config_Config" where
  "cfg_store g AddrPlayer c = g\<lparr>cfg_Player := c\<rparr>"
| "cfg_store g AddrStudio c = g\<lparr>cfg_Studio := c\<rparr>"

fun state_at :: "state_State \<Rightarrow> addr \<Rightarrow> state_Binary" where
  "state_at s AddrPlayer = st_Player s"
| "state_at s AddrStudio = st_Studio s"

definition b_Config :: "Binary \<Rightarrow> config_Binary" where
  "b_Config b = cfg_at (GlobalConfig b) (Config b)"

definition b_State :: "Binary \<Rightarrow> state_Binary" where
  "b_State b = state_at (GlobalState b) (State b)"

definition set_Channel :: "string \<Rightarrow> Binary \<Rightarrow> Binary" where
  "set_Channel c b =
     b\<lparr>GlobalConfig := cfg_store (GlobalConfig b) (Config b) ((b_Config b)\<lparr>Channel := c\<rparr>)\<rparr>"

definition set_DiscordRPC :: "bool \<Rightarrow> Binary \<Rightarrow> Binary" where
  "set_DiscordRPC v b =
     b\<lparr>GlobalConfig := cfg_store (GlobalConfig b) (Config b) ((b_Config b)\<lparr>DiscordRPC := v\<rparr>)\<rparr>"

section \<open>Strings\<close>

text \<open>
  Go's \<^verbatim>\<open>strings.Split(s, sep)\<close> for a separator of one byte: the substrings between
  the occurrences of the separator, in order; a string without the separator (the
  empty string too) gives the one-element list of itself.
\<close>

fun Split :: "string \<Rightarrow> char \<Rightarrow> string list" where
  "Split [] sep = [[]]"
| "Split (c # s) sep =
     (if c = sep then [] # Split s sep
      else (case Split s sep of [] \<Rightarrow> [[c]] | t # ts \<Rightarrow> (c # t) # ts))"

text \<open>\<^verbatim>\<open>strings.HasPrefix(s, prefix)\<close>.\<close>

fun HasPrefix :: "string \<Rightarrow> string \<Rightarrow> bool" where
  "HasPrefix s [] = True"
| "HasPrefix [] (p # ps) = False"
| "HasPrefix (c # s) (p # ps) = (c = p \<and> HasPrefix s ps)"

text \<open>\<^verbatim>\<open>strings.Join(elems, sep)\<close>.\<close>

fun Join :: "string list \<Rightarrow> string \<Rightarrow> string" where
  "Join [] sep = []"
| "Join [a] sep = a"
| "Join (a # b # as) sep = a @ sep @ Join (b # as) sep"

section \<open>Errors, events and the outside world\<close>

text \<open>
  A Go \<^verbatim>\<open>error\<close> is a value of \<open>error\<close>, and \<^verbatim>\<open>nil\<close> is \<open>None\<close> of
  \<open>error option\<close>. \<^verbatim>\<open>fmt.Errorf\<close> keeps its format string and its arguments;
  \<open>Wrapf\<close> is a format with \<^verbatim>\<open>%w\<close> and carries the wrapped error.
\<close>

datatype fmtarg = ArgType BinaryType | ArgDuration int

datatype error =
    ErrClosed
  | ErrMsgNoObject
  | Opaque string
  | Errorf string "fmtarg list"
  | Wrapf string "fmtarg list" error

text \<open>
  \<^verbatim>\<open>errors.Is(err, target)\<close>: with a nil argument it compares the two; otherwise it
  walks the chain of \<^verbatim>\<open>err\<close> through \<^verbatim>\<open>Unwrap\<close> and compares each link with the
  target, with \<^verbatim>\<open>==\<close> and only when the type of the target is comparable.
  \<^verbatim>\<open>dbus.ErrMsgNoObject\<close> is a value of the struct \<^verbatim>\<open>dbus.Error\<close>, which holds a
  slice: its type is not comparable, it has no method \<^verbatim>\<open>Is\<close>, and so nothing is equal
  to it for \<^verbatim>\<open>errors.Is\<close>. The other errors are pointers.
\<close>

fun comparable :: "error \<Rightarrow> bool" where
  "comparable ErrMsgNoObject = False"
| "comparable e = True"

fun chain_has :: "error \<Rightarrow> error \<Rightarrow> bool" where
  "chain_has (Wrapf f as e) t = ((comparable t \<and> Wrapf f as e = t) \<or> chain_has e t)"
| "chain_has e t = (comparable t \<and> e = t)"

definition errors_Is :: "error option \<Rightarrow> error option \<Rightarrow> bool" where
  "errors_Is err target =
     (case (err, target) of
        (Some e, Some t) \<Rightarrow> chain_has e t
      | _ \<Rightarrow> err = target)"

text \<open>\<^verbatim>\<open>const timeout = 6 * time.Second\<close>; a \<^verbatim>\<open>time.Duration\<close> counts nanoseconds.\<close>

definition Second :: int where
  "Second = 1000000000"

definition timeout :: int where
  "timeout = 6 * Second"

datatype level = LInfo | LWarn | LError

datatype signal = SIGINT | SIGTERM

datatype task = SplashTask | MutexerTask | RelayTask | PostLaunchTask

record wine_Cmd =
  Path :: string
  Args :: "string list"

text \<open>
  \<^verbatim>\<open>fsnotify.Event\<close> and its \<^verbatim>\<open>Op\<close> bit mask (\<^verbatim>\<open>Create = 1 << 0\<close>);
  \<^verbatim>\<open>e.Has(op)\<close> is \<^verbatim>\<open>e.Op&op == op\<close>.
\<close>

record fsnotify_Event =
  ev_Name :: string
  ev_Op :: "32 word"

definition Create :: "32 word" where
  "Create = 1"

definition Has :: "fsnotify_Event \<Rightarrow> 32 word \<Rightarrow> bool" where
  "Has e op = (and (ev_Op e) op = op)"

text \<open>
  What the program does to the outside is recorded as a trace of events, one trace for
  the calling flow and one for each goroutine. A log call keeps its level and its
  message; the attributes of \<^verbatim>\<open>slog\<close> are left out.
\<close>

datatype event =
    Slog level string
  | LogFatalf string
  | LogPrintf string
  | SplashNew
  | SplashDialog string bool
  | SplashSetMessage string
  | SplashSetDesc string
  | SplashClose
  | EnvSetenv "(string \<times> string) list"
  | LogSetOutput Writer
  | LogFileClose
  | PrefixInit
  | PrefixSetDPI int
  | CallInstallWebView
  | CallSetup
  | CallRun "string list"
  | Go task
  | SyscallKillSelf signal
  | ActivityConnect
  | ActivityClose
  | ActivityHandleRobloxLog string
  | MutexerStart wine_Cmd
  | CmdRun wine_Cmd
  | SignalNotify
  | SignalStop
  | ProcessKill int
  | DefaultSignalAction signal
  | MkdirAll string
  | NewWatcher
  | WatcherAdd string
  | WatcherClose
  | NewTimer int
  | CallRegisterGameMode "32 word"
  | DbusCall "32 word"
  | TailFile string
  | Fprintln Writer string

text \<open>How a flow or a goroutine ends.\<close>

datatype ending =
    Finished
  | Blocked
  | Panicked
  | Exited int

type_synonym task_run = "event list \<times> ending"

text \<open>The select statement of \<^verbatim>\<open>RobloxLogFile\<close> takes one of three channels.\<close>

datatype select_case =
    TimerC
  | EventC fsnotify_Event
  | ErrorC error

text \<open>
  The child process as \<^verbatim>\<open>cmd.Run()\<close> leaves it: it failed to start
  (\<^verbatim>\<open>cmd.Process\<close> stays nil), it started with a pid and exited (\<^verbatim>\<open>Wait\<close> gave an
  error or nil), or it started and never exits.
\<close>

datatype cmd_run =
    StartFailed error
  | Exits int "error option"
  | NeverExits int

text \<open>
  What the signal relay sees in \<^verbatim>\<open>cmd\<close> when a signal arrives: \<^verbatim>\<open>cmd.Process\<close> nil,
  \<^verbatim>\<open>cmd.Process\<close> set and \<^verbatim>\<open>cmd.ProcessState\<close> nil, or \<^verbatim>\<open>cmd.ProcessState\<close> set.
\<close>

datatype cmd_view =
    NotStarted
  | Alive int
  | HasExited int

text \<open>
  The collaborators of \<^verbatim>\<open>binary.go\<close> (packages \<^verbatim>\<open>wine\<close>, \<^verbatim>\<open>splash\<close>, \<^verbatim>\<open>bloxstraprpc\<close>,
  \<^verbatim>\<open>fsnotify\<close>, \<^verbatim>\<open>tail\<close>, \<^verbatim>\<open>dbus\<close>, the operating system, and the methods
  \<^verbatim>\<open>Setup\<close> and \<^verbatim>\<open>InstallWebView\<close> of other files) are parameters: a \<open>world\<close>
  gives the result of every call that leaves the file, for one run. A field of type
  \<open>error option\<close> is the error that the call returns; \<open>Splash_Run\<close> and
  \<open>mutexer_Wait\<close> are \<open>None\<close> when the call does not return during the run;
  \<^verbatim>\<open>Setup\<close> and \<^verbatim>\<open>InstallWebView\<close> have the receiver, which they may change;
  \<open>signals\<close> are the signals delivered to the process while the channel of the relay
  is registered; \<open>selects\<close> are the cases that the select statement of
  \<^verbatim>\<open>RobloxLogFile\<close> takes, in order; \<open>tail_Lines\<close> are the lines that the tail
  delivers, and \<open>tail_closes\<close> says whether its channel is closed after them.
\<close>

record world =
  filepath_Join :: "string list \<Rightarrow> string"
  strings_Fields :: "string \<Rightarrow> string list"
  Executable :: "BinaryType \<Rightarrow> string"
  BinPrefix :: string
  Wine :: "wine_Prefix \<Rightarrow> string \<Rightarrow> string list \<Rightarrow> wine_Cmd"
  LauncherPath :: "config_Binary \<Rightarrow> error + string"
  LogFile :: "BinaryType \<Rightarrow> error + string"
  os_Stat :: "string \<Rightarrow> error option"
  CPU_AVX :: bool
  FirstRun :: bool
  Splash_Run :: "error option option"
  Prefix_Init :: "error option"
  Prefix_SetDPI :: "int \<Rightarrow> error option"
  InstallWebView :: "Binary \<Rightarrow> error option \<times> Binary"
  Setup :: "Binary \<Rightarrow> error option \<times> Binary"
  Activity_Connect :: "error option"
  Activity_HandleRobloxLog :: "string \<Rightarrow> error option"
  mutexer_Start :: "error option"
  mutexer_Wait :: "error option option"
  cmd_Run :: cmd_run
  signals :: "(signal \<times> cmd_view) list"
  AppDataDir :: "wine_Prefix \<Rightarrow> error + string"
  os_MkdirAll :: "string \<Rightarrow> error option"
  fsnotify_NewWatcher :: "error option"
  watcher_Add :: "string \<Rightarrow> error option"
  selects :: "select_case list"
  tail_TailFile :: "string \<Rightarrow> error option"
  tail_Lines :: "string list"
  tail_closes :: bool
  dbus_ConnectSessionBus :: "error option"
  dbus_Call :: "32 word \<Rightarrow> error option"

text \<open>
  The result of a flow: it returns an error or nil, or it does not return (it blocks
  for ever, panics, or the process exits). \<open>bin\<close> is the \<^verbatim>\<open>Binary\<close> behind the
  receiver pointer afterwards, \<open>flow\<close> the events of the calling flow in order, and
  \<open>tasks\<close> the goroutines it started, each with its own trace.
\<close>

datatype result =
    Return "error option"
  | Stops ending

record outcome =
  res :: result
  bin :: Binary
  flow :: "event list"
  tasks :: "(task \<times> task_run) list"

section \<open>\<^verbatim>\<open>Binary.HandleProtocolURI\<close>\<close>

text \<open>
  \<^verbatim>\<open>
  func (b *Binary) HandleProtocolURI(mime string) {
      uris := strings.Split(mime, "+")
      for _, uri := range uris {
          kv := strings.Split(uri, ":")
          if len(kv) == 2 && kv[0] == "channel" {
              c := kv[1]
              if c == "" { continue }
              slog.Warn("Roblox has requested a user channel, changing...", "channel", c)
              b.Config.Channel = c
          }
      }
  }
  \<close>
  The body of the loop is \<open>handle_uri\<close>, on the pair of the \<^verbatim>\<open>Binary\<close> and the
  trace so far.
\<close>

definition handle_uri :: "Binary \<times> event list \<Rightarrow> string \<Rightarrow> Binary \<times> event list" where
  "handle_uri st uri =
     (let kv = Split uri CHR '':'' in
      if length kv = 2 \<and> kv ! 0 = ''channel'' then
        (let c = kv ! 1 in
         if c = [] then st
         else (set_Channel c (fst st),
               snd st @ [Slog LWarn ''Roblox has requested a user channel, changing...'']))
      else st)"

fun range_uris :: "Binary \<times> event list \<Rightarrow> string list \<Rightarrow> Binary \<times> event list" where
  "range_uris st [] = st"
| "range_uris st (uri # uris) = range_uris (handle_uri st uri) uris"

definition HandleProtocolURI :: "Binary \<Rightarrow> string \<Rightarrow> Binary \<times> event list" where
  "HandleProtocolURI b mime = range_uris (b, []) (Split mime CHR ''+'')"

section \<open>\<^verbatim>\<open>Binary.Command\<close>\<close>

text \<open>
  \<^verbatim>\<open>
  if strings.HasPrefix(strings.Join(args, " "), "roblox-studio:1") {
      args = []string{"-protocolString", args[0]}
  }
  \<close>
  \<^verbatim>\<open>args[0]\<close> panics on an empty slice: \<open>None\<close>.
\<close>

definition Command_args :: "string list \<Rightarrow> string list option" where
  "Command_args args =
     (if HasPrefix (Join args '' '') ''roblox-studio:1'' then
        (case args of
           [] \<Rightarrow> None
         | a # _ \<Rightarrow> Some [''-protocolString'', a])
      else Some args)"

text \<open>
  \<^verbatim>\<open>
  cmd := b.Prefix.Wine(filepath.Join(b.Dir, b.Type.Executable()), args...)
  launcher := strings.Fields(b.Config.Launcher)
  if len(launcher) >= 1 {
      cmd.Args = append(launcher, cmd.Args...)
      p, err := b.Config.LauncherPath()
      if err != nil { return nil, fmt.Errorf("bad launcher: %w", err) }
      cmd.Path = p
  }
  return cmd, nil
  \<close>
  The result is \<open>None\<close> when the function panics.
\<close>

definition Command :: "world \<Rightarrow> Binary \<Rightarrow> string list \<Rightarrow> (error + wine_Cmd) option" where
  "Command w b args =
     (case Command_args args of
        None \<Rightarrow> None
      | Some args' \<Rightarrow>
          (let cmd = Wine w (Prefix b) (filepath_Join w [Dir b, Executable w (Type b)]) args';
               launcher = strings_Fields w (Launcher (b_Config b))
           in if length launcher \<ge> 1 then
                (let cmd1 = cmd\<lparr>Args := launcher @ Args cmd\<rparr> in
                 case LauncherPath w (b_Config b) of
                   Inl err \<Rightarrow> Some (Inl (Wrapf ''bad launcher: %w'' [] err))
                 | Inr p \<Rightarrow> Some (Inr (cmd1\<lparr>Path := p\<rparr>)))
              else Some (Inr cmd)))"

section \<open>\<^verbatim>\<open>RobloxLogFile\<close>\<close>

text \<open>
  The loop around the select statement, on the sequence of cases that the select
  takes. The result is the pair \<^verbatim>\<open>(string, error)\<close> of the Go function, or \<open>None\<close>
  when the sequence ends with the loop still waiting.
  \<^verbatim>\<open>
  for {
      select {
      case <-t.C:
          return "", fmt.Errorf("roblox log file not found after %s", timeout)
      case e := <-w.Events:
          if e.Has(fsnotify.Create) { return e.Name, nil }
      case err := <-w.Errors:
          slog.Error("Recieved fsnotify watcher error", "error", err)
      }
  }
  \<close>
\<close>

fun wait_loop :: "select_case list \<Rightarrow> event list \<times> (string \<times> error option) option" where
  "wait_loop [] = ([], None)"
| "wait_loop (TimerC # cs) =
     ([], Some ([], Some (Errorf ''roblox log file not found after %s'' [ArgDuration timeout])))"
| "wait_loop (EventC e # cs) =
     (if Has e Create then ([], Some (ev_Name e, None)) else wait_loop cs)"
| "wait_loop (ErrorC err # cs) =
     (Slog LError ''Recieved fsnotify watcher error'' # fst (wait_loop cs), snd (wait_loop cs))"

text \<open>
  \<^verbatim>\<open>
  ad, err := pfx.AppDataDir()
  if err != nil { return "", fmt.Errorf("get appdata: %w", err) }
  dir := filepath.Join(ad, "Local", "Roblox", "logs")
  if err := os.MkdirAll(dir, 0o755); err != nil {
      return "", fmt.Errorf("create roblox log dir: %w", err)
  }
  w, err := fsnotify.NewWatcher()
  if err != nil { return "", fmt.Errorf("make fsnotify watcher: %w", err) }
  defer w.Close()
  if err := w.Add(dir); err != nil {
      return "", fmt.Errorf("watch roblox log dir: %w", err)
  }
  t := time.NewTimer(timeout)
  \<close>
\<close>

definition RobloxLogFile ::
  "world \<Rightarrow> wine_Prefix \<Rightarrow> event list \<times> (string \<times> error option) option" where
  "RobloxLogFile w pfx =
     (case AppDataDir w pfx of
        Inl err \<Rightarrow> ([], Some ([], Some (Wrapf ''get appdata: %w'' [] err)))
      | Inr ad \<Rightarrow>
          (let dir = filepath_Join w [ad, ''Local'', ''Roblox'', ''logs''] in
           case os_MkdirAll w dir of
             Some err \<Rightarrow>
               ([MkdirAll dir], Some ([], Some (Wrapf ''create roblox log dir: %w'' [] err)))
           | None \<Rightarrow>
               (case fsnotify_NewWatcher w of
                  Some err \<Rightarrow>
                    ([MkdirAll dir, NewWatcher],
                     Some ([], Some (Wrapf ''make fsnotify watcher: %w'' [] err)))
                | None \<Rightarrow>
                    (case watcher_Add w dir of
                       Some err \<Rightarrow>
                         ([MkdirAll dir, NewWatcher, WatcherAdd dir, WatcherClose],
                          Some ([], Some (Wrapf ''watch roblox log dir: %w'' [] err)))
                     | None \<Rightarrow>
                         (let r = wait_loop (selects w) in
                          ([MkdirAll dir, NewWatcher, WatcherAdd dir, NewTimer timeout]
                             @ fst r @ (if snd r = None then [] else [WatcherClose]),
                           snd r))))))"

section \<open>\<^verbatim>\<open>Binary.Tail\<close> and \<^verbatim>\<open>Binary.RegisterGameMode\<close>\<close>

text \<open>
  \<^verbatim>\<open>
  for line := range t.Lines {
      fmt.Fprintln(b.Prefix.Stderr, line.Text)
      if b.Config.DiscordRPC {
          if err := b.Activity.HandleRobloxLog(line.Text); err != nil {
              slog.Error("Activity Roblox log handle failed", "error", err)
          }
      }
  }
  \<close>
  With \<^verbatim>\<open>b.Prefix.Stderr\<close> nil, \<^verbatim>\<open>fmt.Fprintln\<close> panics at the first line: the second
  component says whether the loop panicked.
\<close>

fun tail_lines :: "world \<Rightarrow> Binary \<Rightarrow> string list \<Rightarrow> event list \<times> bool" where
  "tail_lines w b [] = ([], False)"
| "tail_lines w b (l # ls) =
     (case pfx_Stderr (Prefix b) of
        None \<Rightarrow> ([], True)
      | Some out \<Rightarrow>
          (Fprintln out l
             # (if DiscordRPC (b_Config b) then
                  ActivityHandleRobloxLog l
                    # (case Activity_HandleRobloxLog w l of
                         Some err \<Rightarrow> [Slog LError ''Activity Roblox log handle failed'']
                       | None \<Rightarrow> [])
                else [])
             @ fst (tail_lines w b ls),
           snd (tail_lines w b ls)))"

text \<open>
  \<^verbatim>\<open>
  t, err := tail.TailFile(name, tail.Config{Follow: true})
  if err != nil { slog.Error("Could not tail Roblox log file", "error", err); return }
  \<close>
  The lines that the channel delivers are \<open>tail_Lines\<close>; the loop ends when the channel
  is closed and blocks otherwise.
\<close>

definition Tail :: "world \<Rightarrow> Binary \<Rightarrow> string \<Rightarrow> task_run" where
  "Tail w b name =
     (case tail_TailFile w name of
        Some err \<Rightarrow> ([TailFile name, Slog LError ''Could not tail Roblox log file''], Finished)
      | None \<Rightarrow>
          (TailFile name # fst (tail_lines w b (tail_Lines w)),
           if snd (tail_lines w b (tail_Lines w)) then Panicked
           else if tail_closes w then Finished else Blocked))"

text \<open>
  \<^verbatim>\<open>
  conn, err := dbus.ConnectSessionBus()
  if err != nil { slog.Error("Failed to connect to D-Bus", "error", err); return }
  desktop := conn.Object(...)
  call := desktop.Call("org.freedesktop.portal.GameMode.RegisterGame", 0, pid)
  if call.Err != nil && !errors.Is(call.Err, dbus.ErrMsgNoObject) {
      slog.Error("Failed to register to GameMode", "error", err); return
  }
  \<close>
  Since nothing is equal to \<^verbatim>\<open>dbus.ErrMsgNoObject\<close> for \<^verbatim>\<open>errors.Is\<close>, every error of
  the call is logged.
\<close>

definition RegisterGameMode :: "world \<Rightarrow> 32 word \<Rightarrow> event list" where
  "RegisterGameMode w pid =
     CallRegisterGameMode pid
       # (case dbus_ConnectSessionBus w of
            Some err \<Rightarrow> [Slog LError ''Failed to connect to D-Bus'']
          | None \<Rightarrow>
              DbusCall pid
                # (if dbus_Call w pid \<noteq> None
                      \<and> \<not> errors_Is (dbus_Call w pid) (Some ErrMsgNoObject)
                   then [Slog LError ''Failed to register to GameMode'']
                   else []))"

section \<open>\<^verbatim>\<open>Binary.Run\<close>\<close>

text \<open>
  Lines 213 to 220: the connection of the activity reporter. The third component
  says whether \<^verbatim>\<open>defer b.Activity.Close()\<close> was registered.
  \<^verbatim>\<open>
  if b.Config.DiscordRPC {
      if err := b.Activity.Connect(); err != nil {
          slog.Error("Could not connect to Discord RPC", "error", err)
          b.Config.DiscordRPC = false
      } else {
          defer b.Activity.Close()
      }
  }
  \<close>
\<close>

definition run_connect :: "world \<Rightarrow> Binary \<Rightarrow> Binary \<times> event list \<times> bool" where
  "run_connect w b =
     (if DiscordRPC (b_Config b) then
        (case Activity_Connect w of
           Some err \<Rightarrow>
             (set_DiscordRPC False b,
              [ActivityConnect, Slog LError ''Could not connect to Discord RPC''], False)
         | None \<Rightarrow> (b, [ActivityConnect], True))
      else (b, [], False))"

text \<open>
  Lines 222 to 235: the helper that holds the mutex.
  \<^verbatim>\<open>
  if b.GlobalConfig.MultipleInstances && b.Type == roblox.Player {
      slog.Info("Running robloxmutexer")
      mutexer := b.Prefix.Wine(filepath.Join(BinPrefix, "robloxmutexer.exe"))
      if err := mutexer.Start(); err != nil {
          return fmt.Errorf("start robloxmutexer: %w", err)
      }
      go func() {
          if err := mutexer.Wait(); err != nil {
              slog.Error("robloxmutexer returned too early", "error", err)
          }
      }()
  }
  \<close>
\<close>

definition mutexer_task :: "world \<Rightarrow> task_run" where
  "mutexer_task w =
     (case mutexer_Wait w of
        None \<Rightarrow> ([], Blocked)
      | Some None \<Rightarrow> ([], Finished)
      | Some (Some err) \<Rightarrow> ([Slog LError ''robloxmutexer returned too early''], Finished))"

definition run_mutexer ::
  "world \<Rightarrow> Binary \<Rightarrow> error option \<times> event list \<times> (task \<times> task_run) list" where
  "run_mutexer w b =
     (if MultipleInstances (GlobalConfig b) \<and> Type b = Player then
        (let mutexer = Wine w (Prefix b) (filepath_Join w [BinPrefix w, ''robloxmutexer.exe'']) []
         in case mutexer_Start w of
              Some err \<Rightarrow>
                (Some (Wrapf ''start robloxmutexer: %w'' [] err),
                 [Slog LInfo ''Running robloxmutexer'', MutexerStart mutexer], [])
            | None \<Rightarrow>
                (None,
                 [Slog LInfo ''Running robloxmutexer'', MutexerStart mutexer, Go MutexerTask],
                 [(MutexerTask, mutexer_task w)]))
      else (None, [], []))"

text \<open>
  Lines 243 to 260: the signal relay. The goroutine receives one signal from the
  channel; the list holds the signals that arrive while the channel is registered, each
  with what \<^verbatim>\<open>cmd\<close> shows at that moment. The result has the trace, the ending, and the
  signals that the goroutine has not received.
  \<^verbatim>\<open>
  go func() {
      s := <-c
      slog.Warn("Recieved signal", "signal", s)
      if cmd.ProcessState == nil {
          slog.Warn("Killing Roblox", "pid", cmd.Process.Pid)
          cmd.Process.Kill()
      }
      signal.Stop(c)
  }()
  \<close>
  With \<^verbatim>\<open>cmd.Process\<close> still nil, \<^verbatim>\<open>cmd.Process.Pid\<close> panics.
\<close>

fun signal_relay :: "(signal \<times> cmd_view) list \<Rightarrow> task_run \<times> (signal \<times> cmd_view) list" where
  "signal_relay [] = (([], Blocked), [])"
| "signal_relay ((s, NotStarted) # rest) =
     (([Slog LWarn ''Recieved signal''], Panicked), rest)"
| "signal_relay ((s, Alive pid) # rest) =
     (([Slog LWarn ''Recieved signal'', Slog LWarn ''Killing Roblox'', ProcessKill pid,
        SignalStop], Finished), rest)"
| "signal_relay ((s, HasExited pid) # rest) =
     (([Slog LWarn ''Recieved signal'', SignalStop], Finished), rest)"


text \<open>\<^verbatim>\<open>int32(cmd.Process.Pid)\<close>: the conversion keeps the low 32 bits.\<close>

definition int32 :: "int \<Rightarrow> 32 word" where
  "int32 n = word_of_int n"

fun cmd_pid :: "cmd_run \<Rightarrow> int option" where
  "cmd_pid (StartFailed err) = None"
| "cmd_pid (Exits pid err) = Some pid"
| "cmd_pid (NeverExits pid) = Some pid"

text \<open>
  Lines 265 to 290: the goroutine after the launch. It spins until \<^verbatim>\<open>cmd.Process\<close>
  is set, which never happens when the start failed.
  \<^verbatim>\<open>
  go func() {
      for { if cmd.Process != nil { break } }
      lf, err := RobloxLogFile(b.Prefix)
      if err != nil {
          slog.Error("Failed to find Roblox log file", "error", err.Error())
          return
      }
      b.Splash.Close()
      if b.Config.GameMode {
          b.RegisterGameMode(int32(cmd.Process.Pid))
      }
      b.Tail(lf)
  }()
  \<close>
\<close>

definition post_launch :: "world \<Rightarrow> Binary \<Rightarrow> task_run" where
  "post_launch w b =
     (case cmd_pid (cmd_Run w) of
        None \<Rightarrow> ([], Blocked)
      | Some pid \<Rightarrow>
          (case RobloxLogFile w (Prefix b) of
             (tr, None) \<Rightarrow> (tr, Blocked)
           | (tr, Some (lf, Some err)) \<Rightarrow>
               (tr @ [Slog LError ''Failed to find Roblox log file''], Finished)
           | (tr, Some (lf, None)) \<Rightarrow>
               (tr @ [SplashClose]
                  @ (if GameMode (b_Config b) then RegisterGameMode w (int32 pid) else [])
                  @ fst (Tail w b lf),
                snd (Tail w b lf))))"

text \<open>
  Lines 292 to 296: \<^verbatim>\<open>cmd.Run()\<close> and the result of \<^verbatim>\<open>Run\<close>.
  \<^verbatim>\<open>
  if err := cmd.Run(); err != nil {
      return fmt.Errorf("roblox process: %w", err)
  }
  return nil
  \<close>
\<close>

fun run_wait :: "cmd_run \<Rightarrow> result" where
  "run_wait (StartFailed err) = Return (Some (Wrapf ''roblox process: %w'' [] err))"
| "run_wait (Exits pid (Some err)) = Return (Some (Wrapf ''roblox process: %w'' [] err))"
| "run_wait (Exits pid None) = Return None"
| "run_wait (NeverExits pid) = Stops Blocked"

text \<open>The deferred \<^verbatim>\<open>b.Activity.Close()\<close> runs when \<^verbatim>\<open>Run\<close> returns or panics.\<close>

definition run_deferred :: "bool \<Rightarrow> result \<Rightarrow> event list" where
  "run_deferred connected r =
     (if connected \<and> r \<noteq> Stops Blocked then [ActivityClose] else [])"

definition Run :: "world \<Rightarrow> Binary \<Rightarrow> string list \<Rightarrow> outcome" where
  "Run w b args =
     (case run_connect w b of
        (b1, t1, connected) \<Rightarrow>
          (case run_mutexer w b1 of
             (Some err, t2, tk2) \<Rightarrow>
               \<lparr>res = Return (Some err), bin = b1,
                flow = t1 @ t2 @ run_deferred connected (Return (Some err)), tasks = tk2\<rparr>
           | (None, t2, tk2) \<Rightarrow>
               (case Command w b1 args of
                  None \<Rightarrow>
                    \<lparr>res = Stops Panicked, bin = b1,
                     flow = t1 @ t2 @ run_deferred connected (Stops Panicked), tasks = tk2\<rparr>
                | Some (Inl err) \<Rightarrow>
                    \<lparr>res = Return (Some (Wrapf ''%s command: %w'' [ArgType (Type b1)] err)),
                     bin = b1,
                     flow = t1 @ t2 @ run_deferred connected (Return (Some err)), tasks = tk2\<rparr>
                | Some (Inr cmd) \<Rightarrow>
                    \<lparr>res = run_wait (cmd_Run w), bin = b1,
                     flow = t1 @ t2
                       @ [SignalNotify, Go RelayTask, Slog LInfo ''Running Binary'',
                          SplashSetMessage (''Launching '' @ Alias b1), Go PostLaunchTask,
                          CmdRun cmd]
                       @ run_deferred connected (run_wait (cmd_Run w)),
                     tasks = tk2 @ [(RelayTask, fst (signal_relay (signals w))),
                                    (PostLaunchTask, post_launch w b1)]\<rparr>)))"

section \<open>\<^verbatim>\<open>Binary.Main\<close>\<close>

definition DialogNoAVX :: string where
  "DialogNoAVX = ''Warning: Your CPU does not support AVX. While some people may be able to run without it, most are not able to. VinegarHQ cannot provide support for your installation. Continue?''"

text \<open>
  Lines 134 to 150: the goroutine of the splash window. \<^verbatim>\<open>log.Fatalf\<close> ends the
  process with status 1.
  \<^verbatim>\<open>
  go func() {
      err := b.Splash.Run()
      if errors.Is(splash.ErrClosed, err) {
          slog.Warn("Splash window closed!")
          syscall.Kill(syscall.Getpid(), syscall.SIGINT)
          return
      }
      if err != nil {
          log.Fatalf("splash: %s", err)
      }
  }()
  \<close>
  \<open>Splash_Run\<close> is \<open>None\<close> when \<^verbatim>\<open>b.Splash.Run()\<close> does not return.
\<close>

definition splash_task :: "world \<Rightarrow> task_run" where
  "splash_task w =
     (case Splash_Run w of
        None \<Rightarrow> ([], Blocked)
      | Some err \<Rightarrow>
          (if errors_Is (Some ErrClosed) err then
             ([Slog LWarn ''Splash window closed!'', SyscallKillSelf SIGINT], Finished)
           else if err \<noteq> None then ([LogFatalf ''splash: %s''], Exited 1)
           else ([], Finished)))"

text \<open>
  The same goroutine in the older entry point \<^verbatim>\<open>main()\<close>, lines 105 to 113 of the
  second file:
  \<^verbatim>\<open>
  go func() {
      if err := b.Splash.Run(); err != nil {
          log.Printf("splash: %s", err)
      }
      syscall.Kill(syscall.Getpid(), syscall.SIGINT)
  }()
  \<close>
\<close>

definition main_splash_task :: "world \<Rightarrow> task_run" where
  "main_splash_task w =
     (case Splash_Run w of
        None \<Rightarrow> ([], Blocked)
      | Some err \<Rightarrow>
          ((if err \<noteq> None then [LogPrintf ''splash: %s''] else [])
             @ [SyscallKillSelf SIGINT], Finished))"

text \<open>
  Lines 153 to 175: the initialisation of the Wine prefix.
  \<^verbatim>\<open>
  if firstRun || FirstRun {
      slog.Info("Initializing wineprefix", "dir", b.Prefix.Dir())
      b.Splash.SetMessage("Initializing wineprefix")
      var err error
      switch b.Type {
      case roblox.Player: err = b.Prefix.Init()
      case roblox.Studio: err = b.Prefix.SetDPI(97)
      }
      if err != nil { return fmt.Errorf("failed to init %s prefix: %w", b.Type, err) }
      if err := b.InstallWebView(); err != nil {
          return fmt.Errorf("failed to install webview: %w", err)
      }
  }
  \<close>
  The first component is the error that \<^verbatim>\<open>Main\<close> returns here, if any.
\<close>

fun prefix_init :: "world \<Rightarrow> BinaryType \<Rightarrow> event \<times> error option" where
  "prefix_init w Player = (PrefixInit, Prefix_Init w)"
| "prefix_init w Studio = (PrefixSetDPI 97, Prefix_SetDPI w 97)"

definition Main_init :: "world \<Rightarrow> bool \<Rightarrow> Binary \<Rightarrow> error option \<times> Binary \<times> event list" where
  "Main_init w firstRun b =
     (if firstRun \<or> FirstRun w then
        (case snd (prefix_init w (Type b)) of
           Some err \<Rightarrow>
             (Some (Wrapf ''failed to init %s prefix: %w'' [ArgType (Type b)] err), b,
              [Slog LInfo ''Initializing wineprefix'',
               SplashSetMessage ''Initializing wineprefix'', fst (prefix_init w (Type b))])
         | None \<Rightarrow>
             (case InstallWebView w b of
                (Some err, b') \<Rightarrow>
                  (Some (Wrapf ''failed to install webview: %w'' [] err), b',
                   [Slog LInfo ''Initializing wineprefix'',
                    SplashSetMessage ''Initializing wineprefix'',
                    fst (prefix_init w (Type b)), CallInstallWebView])
              | (None, b') \<Rightarrow>
                  (None, b',
                   [Slog LInfo ''Initializing wineprefix'',
                    SplashSetMessage ''Initializing wineprefix'',
                    fst (prefix_init w (Type b)), CallInstallWebView])))
      else (None, b, []))"

text \<open>
  Lines 178 to 180:
  \<^verbatim>\<open>
  if len(args) == 1 { b.HandleProtocolURI(args[0]) }
  \<close>
\<close>

definition Main_protocol :: "Binary \<Rightarrow> string list \<Rightarrow> Binary \<times> event list" where
  "Main_protocol b args = (if length args = 1 then HandleProtocolURI b (args ! 0) else (b, []))"

text \<open>
  Lines 182 to 192:
  \<^verbatim>\<open>
  b.Splash.SetDesc(b.Config.Channel)
  if err := b.Setup(); err != nil { return fmt.Errorf("failed to setup roblox: %w", err) }
  if err := b.Run(args...); err != nil { return fmt.Errorf("failed to run roblox: %w", err) }
  return nil
  \<close>
\<close>

fun wrap_run :: "result \<Rightarrow> result" where
  "wrap_run (Return (Some err)) = Return (Some (Wrapf ''failed to run roblox: %w'' [] err))"
| "wrap_run r = r"

definition Main_launch :: "world \<Rightarrow> Binary \<Rightarrow> string list \<Rightarrow> outcome" where
  "Main_launch w b args =
     (case Setup w b of
        (Some err, b') \<Rightarrow>
          \<lparr>res = Return (Some (Wrapf ''failed to setup roblox: %w'' [] err)), bin = b',
           flow = [SplashSetDesc (Channel (b_Config b)), CallSetup], tasks = []\<rparr>
      | (None, b') \<Rightarrow>
          \<lparr>res = wrap_run (res (Run w b' args)), bin = bin (Run w b' args),
           flow = [SplashSetDesc (Channel (b_Config b)), CallSetup, CallRun args]
                    @ flow (Run w b' args),
           tasks = tasks (Run w b' args)\<rparr>)"

text \<open>
  The two deferred calls of \<^verbatim>\<open>Main\<close>, registered once the log file is open: they run
  when \<^verbatim>\<open>Main\<close> returns or panics, \<^verbatim>\<open>b.Splash.LogPath = logFile.Name()\<close> first and
  \<^verbatim>\<open>logFile.Close()\<close> last.
\<close>

definition Main_deferred :: "string \<Rightarrow> outcome \<Rightarrow> outcome" where
  "Main_deferred name out =
     (if res out = Stops Blocked then out
      else out\<lparr>bin := (bin out)\<lparr>Splash := map_option (\<lambda>s. s\<lparr>LogPath := name\<rparr>) (Splash (bin out))\<rparr>,
               flow := flow out @ [LogFileClose]\<rparr>)"

text \<open>
  Lines 152 to 192, after the log file is open and \<^verbatim>\<open>firstRun\<close> is known.
\<close>

definition Main_steps :: "world \<Rightarrow> bool \<Rightarrow> Binary \<Rightarrow> string list \<Rightarrow> outcome" where
  "Main_steps w firstRun b args =
     (case Main_init w firstRun b of
        (Some err, b1, t1) \<Rightarrow> \<lparr>res = Return (Some err), bin = b1, flow = t1, tasks = []\<rparr>
      | (None, b1, t1) \<Rightarrow>
          (let out = Main_launch w (fst (Main_protocol b1 args)) args
           in out\<lparr>flow := t1 @ snd (Main_protocol b1 args) @ flow out\<rparr>))"

text \<open>
  \<^verbatim>\<open>
  func (b *Binary) Main(args ...string) error {
      b.Splash = splash.New(&b.GlobalConfig.Splash)
      b.Config.Env.Setenv()
      logFile, err := LogFile(b.Type.String())
      if err != nil { return fmt.Errorf("create log file: %w", err) }
      defer logFile.Close()
      out := io.MultiWriter(os.Stderr, logFile)
      b.Prefix.Stderr = out
      b.Prefix.Stdout = out
      log.SetOutput(out)
      defer func() { b.Splash.LogPath = logFile.Name() }()
      firstRun := false
      if _, err := os.Stat(filepath.Join(b.Prefix.Dir(), "drive_c", "windows")); err != nil {
          firstRun = true
      }
      if firstRun && !sysinfo.CPU.AVX {
          b.Splash.Dialog(DialogNoAVX, false)
          slog.Warn("Running roblox without AVX, Roblox will most likely fail to run!")
      }
      go func() { ... }()
      ...
  \<close>
\<close>

definition first_run :: "world \<Rightarrow> Binary \<Rightarrow> bool" where
  "first_run w b =
     (os_Stat w (filepath_Join w [pfx_dir (Prefix b), ''drive_c'', ''windows'']) \<noteq> None)"

text \<open>Line 107, \<^verbatim>\<open>b.Splash = splash.New(&b.GlobalConfig.Splash)\<close>.\<close>

definition new_splash :: "Binary \<Rightarrow> Binary" where
  "new_splash b = b\<lparr>Splash := Some \<lparr>LogPath = []\<rparr>\<rparr>"

text \<open>Lines 116 to 118, the two streams of the prefix.\<close>

definition set_output :: "Writer \<Rightarrow> Binary \<Rightarrow> Binary" where
  "set_output out b = b\<lparr>Prefix := (Prefix b)\<lparr>pfx_Stderr := Some out, pfx_Stdout := Some out\<rparr>\<rparr>"

definition Main_open :: "string \<Rightarrow> Binary \<Rightarrow> Binary" where
  "Main_open name b = set_output (MultiWriter [OsStderr, FileWriter name]) (new_splash b)"

definition Main :: "world \<Rightarrow> Binary \<Rightarrow> string list \<Rightarrow> outcome" where
  "Main w b args =
     (case LogFile w (Type b) of
        Inl err \<Rightarrow>
          \<lparr>res = Return (Some (Wrapf ''create log file: %w'' [] err)), bin = new_splash b,
           flow = [SplashNew, EnvSetenv (Env (b_Config b))], tasks = []\<rparr>
      | Inr name \<Rightarrow>
          (let b1 = Main_open name b;
               firstRun = first_run w b1;
               steps = Main_steps w firstRun b1 args
           in Main_deferred name
                (steps\<lparr>flow := [SplashNew, EnvSetenv (Env (b_Config b)),
                                 LogSetOutput (MultiWriter [OsStderr, FileWriter name])]
                           @ (if firstRun \<and> \<not> CPU_AVX w then
                                [SplashDialog DialogNoAVX False,
                                 Slog LWarn ''Running roblox without AVX, Roblox will most likely fail to run!'']
                              else [])
                           @ [Go SplashTask] @ flow steps,
                        tasks := (SplashTask, splash_task w) # tasks steps\<rparr>)))"

section \<open>Vocabulary of the statements\<close>

text \<open>
  The reading of a protocol URI as the specification words it: a token counts when it
  splits on the colon into exactly the key \<^verbatim>\<open>channel\<close> and a value that is not empty;
  \<open>spec_channel_values\<close> lists the values of the tokens that count, in order, and
  \<open>spec_channel\<close> is the channel after the protocol step of \<^verbatim>\<open>Main\<close>: the last such
  value when there is exactly one argument and it has one, the old channel otherwise.
\<close>

definition spec_token_value :: "string \<Rightarrow> string list" where
  "spec_token_value uri =
     (case Split uri CHR '':'' of
        [k, v] \<Rightarrow> (if k = ''channel'' \<and> v \<noteq> [] then [v] else [])
      | _ \<Rightarrow> [])"

definition spec_channel_values :: "string \<Rightarrow> string list" where
  "spec_channel_values mime = concat (map spec_token_value (Split mime CHR ''+''))"

definition spec_channel :: "string list \<Rightarrow> string \<Rightarrow> string" where
  "spec_channel args ch =
     (case args of
        [mime] \<Rightarrow> (if spec_channel_values mime = [] then ch else last (spec_channel_values mime))
      | _ \<Rightarrow> ch)"

text \<open>Kinds of cases of the select statement: a creation event, a watcher error.\<close>

fun is_create :: "select_case \<Rightarrow> bool" where
  "is_create (EventC e) = Has e Create"
| "is_create c = False"

fun is_watcher_error :: "select_case \<Rightarrow> bool" where
  "is_watcher_error (ErrorC err) = True"
| "is_watcher_error c = False"

text \<open>
  The four calls before the loop of \<^verbatim>\<open>RobloxLogFile\<close> succeed, and \<open>dir\<close> is the
  directory that is watched.
\<close>

definition watch_installed :: "world \<Rightarrow> wine_Prefix \<Rightarrow> string \<Rightarrow> bool" where
  "watch_installed w pfx dir =
     (case AppDataDir w pfx of
        Inl err \<Rightarrow> False
      | Inr ad \<Rightarrow>
          dir = filepath_Join w [ad, ''Local'', ''Roblox'', ''logs'']
          \<and> os_MkdirAll w dir = None \<and> fsnotify_NewWatcher w = None
          \<and> watcher_Add w dir = None)"

text \<open>
  Kinds of events: the three actions after a successful discovery; the kill of the
  child; the call of the per-line handler; the launch of the child; the start of the
  mutex-holder helper or the launch of the child; the steps of
  \<^verbatim>\<open>Main\<close> around the first run; the events that \<^verbatim>\<open>Run\<close> and the protocol step put
  into the calling flow.
\<close>

fun post_event :: "event \<Rightarrow> bool" where
  "post_event SplashClose = True"
| "post_event (CallRegisterGameMode pid) = True"
| "post_event (TailFile name) = True"
| "post_event e = False"


fun is_handle_log :: "event \<Rightarrow> bool" where
  "is_handle_log (ActivityHandleRobloxLog l) = True"
| "is_handle_log e = False"

fun is_launch :: "event \<Rightarrow> bool" where
  "is_launch (CmdRun cmd) = True"
| "is_launch e = False"

fun helper_or_child :: "event \<Rightarrow> bool" where
  "helper_or_child (MutexerStart cmd) = True"
| "helper_or_child (CmdRun cmd) = True"
| "helper_or_child e = False"

fun setup_event :: "event \<Rightarrow> bool" where
  "setup_event PrefixInit = True"
| "setup_event (PrefixSetDPI n) = True"
| "setup_event CallInstallWebView = True"
| "setup_event CallSetup = True"
| "setup_event (CallRun args) = True"
| "setup_event e = False"

fun run_event :: "event \<Rightarrow> bool" where
  "run_event ActivityConnect = True"
| "run_event ActivityClose = True"
| "run_event (Slog l m) = True"
| "run_event (MutexerStart cmd) = True"
| "run_event (Go t) = True"
| "run_event SignalNotify = True"
| "run_event (SplashSetMessage m) = True"
| "run_event (CmdRun cmd) = True"
| "run_event e = False"

section \<open>A concrete run\<close>

text \<open>
  One configured Player and one world in which every call succeeds, the log file of
  Roblox appears after a watcher error and an unrelated write event, and the child exits
  cleanly. The examples below vary single fields of this world.
\<close>

definition cfg0 :: config_Binary where
  "cfg0 = \<lparr>Channel = ''LIVE'', Launcher = [], WineRoot = [], DiscordRPC = True,
           GameMode = True, Env = []\<rparr>"

definition b0 :: Binary where
  "b0 = \<lparr>Splash = None,
         GlobalState = \<lparr>st_Player = \<lparr>Version = ''version-1''\<rparr>,
                        st_Studio = \<lparr>Version = ''version-2''\<rparr>\<rparr>,
         State = AddrPlayer,
         GlobalConfig = \<lparr>cfg_Player = cfg0, cfg_Studio = cfg0\<lparr>Channel := ''zstudio''\<rparr>,
                         cfg_Splash = \<lparr>Enabled = True\<rparr>, MultipleInstances = True\<rparr>,
         Config = AddrPlayer,
         Alias = ''Player'', Name = ''RobloxPlayerBeta.exe'', Dir = ''/versions/v1'',
         Prefix = \<lparr>pfx_dir = ''/prefixes/player'', pfx_Stderr = Some OsStderr,
                   pfx_Stdout = Some OsStderr\<rparr>,
         Type = Player, Deploy = None, Auth = False, Activity = ()\<rparr>"

fun exe0 :: "BinaryType \<Rightarrow> string" where
  "exe0 Player = ''RobloxPlayerBeta.exe''"
| "exe0 Studio = ''RobloxStudioBeta.exe''"

definition w0 :: world where
  "w0 = \<lparr>filepath_Join = (\<lambda>ps. Join ps ''/''),
         strings_Fields = (\<lambda>s. filter (\<lambda>t. t \<noteq> []) (Split s CHR '' '')),
         Executable = exe0,
         BinPrefix = ''/usr'',
         Wine = (\<lambda>pfx exe args. \<lparr>Path = ''wine'', Args = ''wine'' # exe # args\<rparr>),
         LauncherPath = (\<lambda>c. Inr ''/usr/bin/gamemoderun''),
         LogFile = (\<lambda>t. Inr ''/logs/player.log''),
         os_Stat = (\<lambda>p. None),
         CPU_AVX = True,
         FirstRun = False,
         Splash_Run = Some (Some ErrClosed),
         Prefix_Init = None,
         Prefix_SetDPI = (\<lambda>n. None),
         InstallWebView = (\<lambda>b. (None, b)),
         Setup = (\<lambda>b. (None, b)),
         Activity_Connect = None,
         Activity_HandleRobloxLog = (\<lambda>l. None),
         mutexer_Start = None,
         mutexer_Wait = None,
         cmd_Run = Exits 4242 None,
         signals = [(SIGINT, Alive 4242), (SIGINT, HasExited 4242)],
         AppDataDir = (\<lambda>p. Inr (pfx_dir p @ ''/appdata'')),
         os_MkdirAll = (\<lambda>d. None),
         fsnotify_NewWatcher = None,
         watcher_Add = (\<lambda>d. None),
         selects = [ErrorC (Opaque ''overflow''),
                    EventC \<lparr>ev_Name = ''/logs/x.tmp'', ev_Op = 2\<rparr>,
                    EventC \<lparr>ev_Name = ''/logs/0.log'', ev_Op = 1\<rparr>,
                    TimerC],
         tail_TailFile = (\<lambda>n. None),
         tail_Lines = [''line one''],
         tail_closes = True,
         dbus_ConnectSessionBus = None,
         dbus_Call = (\<lambda>p. None)\<rparr>"

definition mime0 :: string where
  "mime0 = ''channel:zfoo+channel:+launchmode:play+channel:a:b+channel:zbar''"

definition logdir0 :: string where
  "logdir0 = ''/prefixes/player/appdata/Local/Roblox/logs''"

text \<open>
  Variations of the world: the marker directory of the prefix is missing; in addition
  \<^verbatim>\<open>Prefix.Init\<close> fails; the log file of Vinegar cannot be created; the same with the
  marker directory missing and the flag \<^verbatim>\<open>FirstRun\<close> set.
\<close>

definition w_first :: world where
  "w_first = w0\<lparr>os_Stat := (\<lambda>p. Some (Opaque ''no such file or directory''))\<rparr>"

definition w_first_init_fails :: world where
  "w_first_init_fails = w_first\<lparr>Prefix_Init := Some (Opaque ''wineboot failed'')\<rparr>"

definition w_no_log :: world where
  "w_no_log = w0\<lparr>LogFile := (\<lambda>t. Inl (Opaque ''permission denied''))\<rparr>"

definition w_first_no_log :: world where
  "w_first_no_log = w_first\<lparr>FirstRun := True,
                            LogFile := (\<lambda>t. Inl (Opaque ''permission denied''))\<rparr>"

section \<open>Evaluation of the concrete run\<close>

lemmas conc_defs = w_first_def w_first_init_fails_def w_no_log_def w_first_no_log_def
  w0_def b0_def cfg0_def b_Config_def
lemmas run_defs = Run_def run_connect_def run_mutexer_def Command_def Command_args_def
  run_deferred_def Let_def

lemma mime0_values: "spec_channel_values mime0 = [''zfoo'', ''zbar'']"
  by (simp add: mime0_def spec_channel_values_def spec_token_value_def)

section \<open>The channel after \<^verbatim>\<open>HandleProtocolURI\<close>\<close>

lemma cfg_at_store: "cfg_at (cfg_store g a c) a = c"
  by (cases a) simp_all

lemma cfg_at_store_other: "a' \<noteq> a \<Longrightarrow> cfg_at (cfg_store g a c) a' = cfg_at g a'"
  by (cases a; cases a') simp_all

lemma cfg_store_same: "cfg_store g a (cfg_at g a) = g"
  by (cases a) simp_all

lemma b_Config_set_Channel: "b_Config (set_Channel c b) = (b_Config b)\<lparr>Channel := c\<rparr>"
  by (simp add: b_Config_def set_Channel_def cfg_at_store)

lemma handle_uri_cases:
  "handle_uri st uri =
     (case spec_token_value uri of
        [] \<Rightarrow> st
      | v # _ \<Rightarrow> (set_Channel v (fst st),
                  snd st @ [Slog LWarn ''Roblox has requested a user channel, changing...'']))"
proof (cases "Split uri CHR '':''")
  case Nil
  then show ?thesis by (simp add: handle_uri_def spec_token_value_def)
next
  case (Cons k r)
  note outer = Cons
  show ?thesis
  proof (cases r)
    case Nil
    with outer show ?thesis by (simp add: handle_uri_def spec_token_value_def)
  next
    case (Cons v r')
    with outer show ?thesis
      by (cases r') (simp_all add: handle_uri_def spec_token_value_def Let_def)
  qed
qed

lemma spec_token_value_short: "spec_token_value uri = [] \<or> (\<exists>v. spec_token_value uri = [v] \<and> v \<noteq> [])"
  by (auto simp: spec_token_value_def split: list.splits)

lemma range_uris_channel:
  "Channel (b_Config (fst (range_uris st uris))) =
     (if concat (map spec_token_value uris) = [] then Channel (b_Config (fst st))
      else last (concat (map spec_token_value uris)))"
proof (induction uris arbitrary: st)
  case Nil
  then show ?case by simp
next
  case (Cons uri uris)
  from spec_token_value_short [of uri] show ?case
  proof
    assume "spec_token_value uri = []"
    then show ?thesis using Cons.IH [of "handle_uri st uri"]
      by (simp add: handle_uri_cases)
  next
    assume "\<exists>v. spec_token_value uri = [v] \<and> v \<noteq> []"
    then obtain v where v: "spec_token_value uri = [v]" by blast
    then show ?thesis using Cons.IH [of "handle_uri st uri"]
      by (simp add: handle_uri_cases b_Config_set_Channel)
  qed
qed

lemma HandleProtocolURI_channel:
  "Channel (b_Config (fst (HandleProtocolURI b mime))) =
     (if spec_channel_values mime = [] then Channel (b_Config b)
      else last (spec_channel_values mime))"
  by (simp add: HandleProtocolURI_def spec_channel_values_def range_uris_channel)

section \<open>The arguments of \<^verbatim>\<open>Command\<close>\<close>

lemma HasPrefix_take: "HasPrefix s p \<longleftrightarrow> take (length p) s = p"
  by (induction s p rule: HasPrefix.induct) auto

lemma Join_Cons: "Join (a # as) sep = (if as = [] then a else a @ sep @ Join as sep)"
  by (cases as) simp_all

lemma HasPrefix_Join:
  assumes "CHR '' '' \<notin> set p"
  shows "HasPrefix (Join (a # as) '' '') p \<longleftrightarrow> HasPrefix a p"
proof (cases "as = []")
  case True
  then show ?thesis by simp
next
  case False
  show ?thesis
  proof (cases "length p \<le> length a")
    case True
    with False show ?thesis by (simp add: HasPrefix_take Join_Cons)
  next
    case long: False
    have "take (length p) a \<noteq> p"
    proof
      assume "take (length p) a = p"
      then have "length (take (length p) a) = length p" by simp
      with long show False by simp
    qed
    moreover have "take (length p) (a @ '' '' @ Join as '' '') \<noteq> p"
    proof
      assume eq: "take (length p) (a @ '' '' @ Join as '' '') = p"
      from long have lt: "length a < length p" by simp
      have "take (length p) (a @ '' '' @ Join as '' '') ! length a
              = (a @ '' '' @ Join as '' '') ! length a"
        using lt by (rule nth_take)
      also have "\<dots> = CHR '' ''" by (simp add: nth_append)
      finally have "p ! length a = CHR '' ''" by (simp only: eq)
      with long assms show False by (metis nth_mem not_le_imp_less)
    qed
    ultimately show ?thesis using False by (simp add: HasPrefix_take Join_Cons)
  qed
qed

lemma studio_prefix_no_space: "CHR '' '' \<notin> set ''roblox-studio:1''"
  by simp

lemma HasPrefix_Join_studio:
  "HasPrefix (Join args '' '') ''roblox-studio:1'' \<longleftrightarrow>
     args \<noteq> [] \<and> HasPrefix (hd args) ''roblox-studio:1''"
proof (cases args)
  case Nil
  then show ?thesis by simp
next
  case (Cons a as)
  then show ?thesis using HasPrefix_Join [OF studio_prefix_no_space, of a as] by simp
qed

lemma Command_args_studio:
  "HasPrefix a ''roblox-studio:1'' \<Longrightarrow> Command_args (a # rest) = Some [''-protocolString'', a]"
  using HasPrefix_Join_studio [of "a # rest"] by (simp add: Command_args_def)

lemma Command_args_flag: "Command_args [''-protocolString'', a] = Some [''-protocolString'', a]"
  by (simp add: Command_args_def)

text \<open>
  Claim C9. The space-joined arguments have the prefix \<^verbatim>\<open>roblox-studio:1\<close> exactly
  when there is a first argument and it has this prefix. In that case \<^verbatim>\<open>Command\<close> does
  not panic, replaces the arguments by \<^verbatim>\<open>-protocolString\<close> and the first argument, and
  builds the command that it builds for these two arguments alone: every argument after
  the first is dropped.
\<close>

theorem studio_protocol_args_replaced:
  "(HasPrefix (Join args '' '') ''roblox-studio:1'' \<longleftrightarrow>
      args \<noteq> [] \<and> HasPrefix (hd args) ''roblox-studio:1'')
   \<and> (args \<noteq> [] \<and> HasPrefix (hd args) ''roblox-studio:1'' \<longrightarrow>
        Command_args args = Some [''-protocolString'', hd args]
        \<and> Command w b args = Command w b [''-protocolString'', hd args])"
proof (intro conjI impI)
  show "HasPrefix (Join args '' '') ''roblox-studio:1'' \<longleftrightarrow>
      args \<noteq> [] \<and> HasPrefix (hd args) ''roblox-studio:1''"
    by (rule HasPrefix_Join_studio)
next
  assume h: "args \<noteq> [] \<and> HasPrefix (hd args) ''roblox-studio:1''"
  then obtain a rest where args: "args = a # rest" by (cases args) auto
  with h have p: "HasPrefix a ''roblox-studio:1''" by simp
  show "Command_args args = Some [''-protocolString'', hd args]"
    using Command_args_studio [OF p] args by simp
  show "Command w b args = Command w b [''-protocolString'', hd args]"
    using Command_args_studio [OF p, of rest] args
    by (simp add: Command_def Command_args_flag)
qed

theorem studio_protocol_args_replaced_witness:
  "[''roblox-studio:1+launchmode:edit'', ''-extra''] \<noteq> []
   \<and> HasPrefix (hd [''roblox-studio:1+launchmode:edit'', ''-extra'']) ''roblox-studio:1''
   \<and> Command_args [''roblox-studio:1+launchmode:edit'', ''-extra''] =
       Some [''-protocolString'', ''roblox-studio:1+launchmode:edit'']
   \<and> Command w0 b0 [''roblox-studio:1+launchmode:edit'', ''-extra''] =
       Command w0 b0 [''-protocolString'', ''roblox-studio:1+launchmode:edit'']
   \<and> Command w0 b0 [''-protocolString'', ''roblox-studio:1+launchmode:edit''] =
       Some (Inr \<lparr>Path = ''wine'',
                    Args = [''wine'', ''/versions/v1/RobloxPlayerBeta.exe'', ''-protocolString'',
                            ''roblox-studio:1+launchmode:edit'']\<rparr>)"
proof -
  have c: "Command w0 b0 [''-protocolString'', ''roblox-studio:1+launchmode:edit''] =
       Some (Inr \<lparr>Path = ''wine'',
                    Args = [''wine'', ''/versions/v1/RobloxPlayerBeta.exe'', ''-protocolString'',
                            ''roblox-studio:1+launchmode:edit'']\<rparr>)"
    by (simp add: Command_def Command_args_def Let_def conc_defs)
  from studio_protocol_args_replaced [of "[''roblox-studio:1+launchmode:edit'', ''-extra'']" w0 b0] c
  show ?thesis by simp
qed

section \<open>What \<^verbatim>\<open>HandleProtocolURI\<close> leaves unchanged\<close>

lemma set_Channel_twice: "set_Channel c (set_Channel c' b) = set_Channel c b"
  by (cases "Config b") (simp_all add: set_Channel_def b_Config_def)

lemma set_Channel_same: "set_Channel (Channel (b_Config b)) b = b"
  by (cases "Config b") (simp_all add: set_Channel_def b_Config_def)

lemma range_uris_frame:
  "fst (range_uris st uris) = set_Channel (Channel (b_Config (fst (range_uris st uris)))) (fst st)"
proof (induction uris arbitrary: st)
  case Nil
  then show ?case by (simp add: set_Channel_same)
next
  case (Cons uri uris)
  show ?case
  proof (cases "spec_token_value uri")
    case Nil
    then show ?thesis using Cons.IH [of "handle_uri st uri"] by (simp add: handle_uri_cases)
  next
    case (Cons v vs)
    then show ?thesis using Cons.IH [of "handle_uri st uri"]
      by (simp add: handle_uri_cases set_Channel_twice)
  qed
qed

lemma HandleProtocolURI_frame:
  "fst (HandleProtocolURI b mime) =
     set_Channel (Channel (b_Config (fst (HandleProtocolURI b mime)))) b"
  using range_uris_frame [of "(b, [])"] by (simp add: HandleProtocolURI_def)

lemma set_Channel_fields:
  "Splash (set_Channel c b) = Splash b"
  "GlobalState (set_Channel c b) = GlobalState b"
  "State (set_Channel c b) = State b"
  "Config (set_Channel c b) = Config b"
  "Alias (set_Channel c b) = Alias b"
  "Name (set_Channel c b) = Name b"
  "Dir (set_Channel c b) = Dir b"
  "Prefix (set_Channel c b) = Prefix b"
  "Type (set_Channel c b) = Type b"
  "Deploy (set_Channel c b) = Deploy b"
  "Auth (set_Channel c b) = Auth b"
  "Activity (set_Channel c b) = Activity b"
  by (simp_all add: set_Channel_def)

lemma set_Channel_global:
  "cfg_Splash (GlobalConfig (set_Channel c b)) = cfg_Splash (GlobalConfig b)"
  "MultipleInstances (GlobalConfig (set_Channel c b)) = MultipleInstances (GlobalConfig b)"
  "a \<noteq> Config b \<Longrightarrow> cfg_at (GlobalConfig (set_Channel c b)) a = cfg_at (GlobalConfig b) a"
  by (cases "Config b"; cases a; simp add: set_Channel_def)+

text \<open>
  Claim C10. \<^verbatim>\<open>HandleProtocolURI\<close> changes at most the channel of the configuration that
  \<^verbatim>\<open>b.Config\<close> points to. Every field of the \<^verbatim>\<open>Binary\<close> keeps its value, the pointers
  \<^verbatim>\<open>Config\<close> and \<^verbatim>\<open>State\<close> too; the configuration behind \<^verbatim>\<open>b.Config\<close> is the old one
  with the new channel; the persisted state is unchanged. Since \<^verbatim>\<open>b.Config\<close> points
  into \<^verbatim>\<open>*b.GlobalConfig\<close>, the one changed location is also seen through
  \<^verbatim>\<open>b.GlobalConfig\<close>; the configuration of the other variant, the splash settings and
  \<^verbatim>\<open>MultipleInstances\<close> are unchanged.
\<close>

theorem protocol_uri_frame:
  "fst (HandleProtocolURI b mime) =
     b\<lparr>GlobalConfig := GlobalConfig (fst (HandleProtocolURI b mime))\<rparr>
   \<and> b_Config (fst (HandleProtocolURI b mime)) =
       (b_Config b)\<lparr>Channel := Channel (b_Config (fst (HandleProtocolURI b mime)))\<rparr>
   \<and> (\<forall>a. a \<noteq> Config b \<longrightarrow>
         cfg_at (GlobalConfig (fst (HandleProtocolURI b mime))) a = cfg_at (GlobalConfig b) a)
   \<and> cfg_Splash (GlobalConfig (fst (HandleProtocolURI b mime))) = cfg_Splash (GlobalConfig b)
   \<and> MultipleInstances (GlobalConfig (fst (HandleProtocolURI b mime))) =
       MultipleInstances (GlobalConfig b)
   \<and> b_State (fst (HandleProtocolURI b mime)) = b_State b
   \<and> GlobalState (fst (HandleProtocolURI b mime)) = GlobalState b"
proof -
  define r where "r = fst (HandleProtocolURI b mime)"
  define c where "c = Channel (b_Config r)"
  have f: "r = set_Channel c b"
    unfolding r_def c_def by (rule HandleProtocolURI_frame)
  have 1: "set_Channel c b = b\<lparr>GlobalConfig := GlobalConfig (set_Channel c b)\<rparr>"
    by (simp add: set_Channel_def)
  have 2: "b_Config (set_Channel c b) = (b_Config b)\<lparr>Channel := c\<rparr>"
    by (rule b_Config_set_Channel)
  have 3: "\<forall>a. a \<noteq> Config b \<longrightarrow>
             cfg_at (GlobalConfig (set_Channel c b)) a = cfg_at (GlobalConfig b) a"
    by (simp add: set_Channel_global)
  have 4: "b_State (set_Channel c b) = b_State b"
    by (simp add: b_State_def set_Channel_fields)
  have "r = b\<lparr>GlobalConfig := GlobalConfig r\<rparr>
   \<and> b_Config r = (b_Config b)\<lparr>Channel := c\<rparr>
   \<and> (\<forall>a. a \<noteq> Config b \<longrightarrow> cfg_at (GlobalConfig r) a = cfg_at (GlobalConfig b) a)
   \<and> cfg_Splash (GlobalConfig r) = cfg_Splash (GlobalConfig b)
   \<and> MultipleInstances (GlobalConfig r) = MultipleInstances (GlobalConfig b)
   \<and> b_State r = b_State b
   \<and> GlobalState r = GlobalState b"
    unfolding f using 1 2 3 4 by (simp add: set_Channel_global set_Channel_fields)
  then show ?thesis unfolding c_def r_def .
qed

theorem protocol_uri_frame_witness:
  "AddrStudio \<noteq> Config b0
   \<and> cfg_at (GlobalConfig (fst (HandleProtocolURI b0 mime0))) AddrStudio =
       cfg_at (GlobalConfig b0) AddrStudio
   \<and> Channel (b_Config (fst (HandleProtocolURI b0 mime0))) = ''zbar''
   \<and> b_Config (fst (HandleProtocolURI b0 mime0)) = cfg0\<lparr>Channel := ''zbar''\<rparr>
   \<and> fst (HandleProtocolURI b0 mime0) =
       b0\<lparr>GlobalConfig := GlobalConfig (fst (HandleProtocolURI b0 mime0))\<rparr>"
proof -
  have h: "AddrStudio \<noteq> Config b0" by (simp add: b0_def)
  have c: "Channel (b_Config (fst (HandleProtocolURI b0 mime0))) = ''zbar''"
    by (simp add: HandleProtocolURI_channel mime0_values)
  have b: "b_Config b0 = cfg0" by (simp add: conc_defs)
  note frame = protocol_uri_frame [of b0 mime0]
  from frame h
  have s: "cfg_at (GlobalConfig (fst (HandleProtocolURI b0 mime0))) AddrStudio =
       cfg_at (GlobalConfig b0) AddrStudio"
    by blast
  from frame s h c b show ?thesis by simp
qed

section \<open>The discovery of the log file\<close>

lemma wait_loop_create:
  "\<forall>c\<in>set pre. c \<noteq> TimerC \<and> \<not> is_create c \<Longrightarrow> Has e Create \<Longrightarrow>
   wait_loop (pre @ EventC e # rest) =
     (replicate (length (filter is_watcher_error pre))
                  (Slog LError ''Recieved fsnotify watcher error''),
      Some (ev_Name e, None))"
proof (induction pre)
  case Nil
  then show ?case by simp
next
  case (Cons c pre)
  then show ?case by (cases c) simp_all
qed

lemma wait_loop_timer:
  "\<forall>c\<in>set pre. c \<noteq> TimerC \<and> \<not> is_create c \<Longrightarrow>
   wait_loop (pre @ TimerC # rest) =
     (replicate (length (filter is_watcher_error pre))
                  (Slog LError ''Recieved fsnotify watcher error''),
      Some ([], Some (Errorf ''roblox log file not found after %s'' [ArgDuration timeout])))"
proof (induction pre)
  case Nil
  then show ?case by simp
next
  case (Cons c pre)
  then show ?case by (cases c) simp_all
qed

lemma wait_loop_trace: "set (fst (wait_loop cs)) \<subseteq> {Slog LError ''Recieved fsnotify watcher error''}"
  by (induction cs rule: wait_loop.induct) auto

lemma RobloxLogFile_installed:
  "watch_installed w pfx dir \<Longrightarrow>
   RobloxLogFile w pfx =
     ([MkdirAll dir, NewWatcher, WatcherAdd dir, NewTimer timeout]
        @ fst (wait_loop (selects w))
        @ (if snd (wait_loop (selects w)) = None then [] else [WatcherClose]),
      snd (wait_loop (selects w)))"
  by (auto simp: watch_installed_def RobloxLogFile_def Let_def split: sum.splits)

lemma RobloxLogFile_order:
  "WatcherAdd d \<in> set (fst (RobloxLogFile w pfx)) \<Longrightarrow>
   \<exists>rest. fst (RobloxLogFile w pfx) = MkdirAll d # NewWatcher # WatcherAdd d # rest"
  using wait_loop_trace [of "selects w"]
  by (auto simp: RobloxLogFile_def Let_def
      split: sum.splits option.splits if_splits)

text \<open>
  Claim C4. In every call of \<^verbatim>\<open>RobloxLogFile\<close> the directory of the logs is created
  with \<^verbatim>\<open>os.MkdirAll\<close> before the watch on it is added. Once the watch is installed, the
  timer is started with the timeout of six seconds; if the select statement takes a
  creation event before it takes the timer, the function returns the name of that event
  and no error; if it takes the timer before any creation event, the function returns
  the empty path and the timeout error. Events that are not creations are skipped, and
  every watcher error taken while waiting is logged, once each, without ending the
  wait.
\<close>

theorem log_discovery_race:
  "(\<forall>d. WatcherAdd d \<in> set (fst (RobloxLogFile w pfx)) \<longrightarrow>
        (\<exists>rest. fst (RobloxLogFile w pfx) = MkdirAll d # NewWatcher # WatcherAdd d # rest))
   \<and> (watch_installed w pfx dir \<and> (\<forall>c\<in>set pre. c \<noteq> TimerC \<and> \<not> is_create c) \<longrightarrow>
        (selects w = pre @ EventC e # rest \<and> Has e Create \<longrightarrow>
           RobloxLogFile w pfx =
             ([MkdirAll dir, NewWatcher, WatcherAdd dir, NewTimer timeout]
                @ replicate (length (filter is_watcher_error pre))
                  (Slog LError ''Recieved fsnotify watcher error'')
                @ [WatcherClose],
              Some (ev_Name e, None)))
        \<and> (selects w = pre @ TimerC # rest \<longrightarrow>
           RobloxLogFile w pfx =
             ([MkdirAll dir, NewWatcher, WatcherAdd dir, NewTimer timeout]
                @ replicate (length (filter is_watcher_error pre))
                  (Slog LError ''Recieved fsnotify watcher error'')
                @ [WatcherClose],
              Some ([], Some (Errorf ''roblox log file not found after %s'' [ArgDuration timeout])))))"
proof (intro conjI allI impI)
  fix d
  assume "WatcherAdd d \<in> set (fst (RobloxLogFile w pfx))"
  then show "\<exists>rest. fst (RobloxLogFile w pfx) = MkdirAll d # NewWatcher # WatcherAdd d # rest"
    by (rule RobloxLogFile_order)
next
  assume a: "watch_installed w pfx dir \<and> (\<forall>c\<in>set pre. c \<noteq> TimerC \<and> \<not> is_create c)"
    and s: "selects w = pre @ EventC e # rest \<and> Has e Create"
  from a s have "wait_loop (selects w) =
     (replicate (length (filter is_watcher_error pre))
                  (Slog LError ''Recieved fsnotify watcher error''), Some (ev_Name e, None))"
    by (simp add: wait_loop_create)
  moreover from a have "watch_installed w pfx dir" by simp
  ultimately show "RobloxLogFile w pfx =
             ([MkdirAll dir, NewWatcher, WatcherAdd dir, NewTimer timeout]
                @ replicate (length (filter is_watcher_error pre))
                  (Slog LError ''Recieved fsnotify watcher error'')
                @ [WatcherClose],
              Some (ev_Name e, None))"
    using RobloxLogFile_installed [of w pfx dir] by (simp add: timeout_def Second_def)
next
  assume a: "watch_installed w pfx dir \<and> (\<forall>c\<in>set pre. c \<noteq> TimerC \<and> \<not> is_create c)"
    and s: "selects w = pre @ TimerC # rest"
  from a s have "wait_loop (selects w) =
     (replicate (length (filter is_watcher_error pre))
                  (Slog LError ''Recieved fsnotify watcher error''), Some ([], Some (Errorf ''roblox log file not found after %s'' [ArgDuration timeout])))"
    by (simp add: wait_loop_timer)
  moreover from a have "watch_installed w pfx dir" by simp
  ultimately show "RobloxLogFile w pfx =
             ([MkdirAll dir, NewWatcher, WatcherAdd dir, NewTimer timeout]
                @ replicate (length (filter is_watcher_error pre))
                  (Slog LError ''Recieved fsnotify watcher error'')
                @ [WatcherClose],
              Some ([], Some (Errorf ''roblox log file not found after %s'' [ArgDuration timeout])))"
    using RobloxLogFile_installed [of w pfx dir] by (simp add: timeout_def Second_def)
qed

theorem log_discovery_race_witness:
  "watch_installed w0 (Prefix b0) logdir0
   \<and> selects w0 =
       [ErrorC (Opaque ''overflow''), EventC \<lparr>ev_Name = ''/logs/x.tmp'', ev_Op = 2\<rparr>]
         @ EventC \<lparr>ev_Name = ''/logs/0.log'', ev_Op = 1\<rparr> # [TimerC]
   \<and> Has \<lparr>ev_Name = ''/logs/0.log'', ev_Op = 1\<rparr> Create
   \<and> RobloxLogFile w0 (Prefix b0) =
       ([MkdirAll logdir0, NewWatcher, WatcherAdd logdir0, NewTimer timeout,
         Slog LError ''Recieved fsnotify watcher error'', WatcherClose],
        Some (''/logs/0.log'', None))
   \<and> watch_installed (w0\<lparr>selects := [ErrorC (Opaque ''overflow'')] @ TimerC # []\<rparr>)
         (Prefix b0) logdir0
   \<and> RobloxLogFile (w0\<lparr>selects := [ErrorC (Opaque ''overflow'')] @ TimerC # []\<rparr>) (Prefix b0) =
       ([MkdirAll logdir0, NewWatcher, WatcherAdd logdir0, NewTimer timeout,
         Slog LError ''Recieved fsnotify watcher error'', WatcherClose],
        Some ([], Some (Errorf ''roblox log file not found after %s'' [ArgDuration timeout])))
   \<and> WatcherAdd logdir0 \<in> set (fst (RobloxLogFile w0 (Prefix b0)))"
proof -
  let ?pre = "[ErrorC (Opaque ''overflow''), EventC \<lparr>ev_Name = ''/logs/x.tmp'', ev_Op = 2\<rparr>]"
  let ?e = "\<lparr>ev_Name = ''/logs/0.log'', ev_Op = 1\<rparr>"
  let ?w1 = "w0\<lparr>selects := [ErrorC (Opaque ''overflow'')] @ TimerC # []\<rparr>"
  have i: "watch_installed w0 (Prefix b0) logdir0"
    by (simp add: watch_installed_def logdir0_def conc_defs)
  have i1: "watch_installed ?w1 (Prefix b0) logdir0"
    by (simp add: watch_installed_def logdir0_def conc_defs)
  have p: "\<forall>c\<in>set ?pre. c \<noteq> TimerC \<and> \<not> is_create c"
    by (simp add: Has_def Create_def)
  have p1: "\<forall>c\<in>set [ErrorC (Opaque ''overflow'')]. c \<noteq> TimerC \<and> \<not> is_create c"
    by simp
  have s: "selects w0 = ?pre @ EventC ?e # [TimerC]" by (simp add: w0_def)
  have s1: "selects ?w1 = [ErrorC (Opaque ''overflow'')] @ TimerC # []" by simp
  have c: "Has ?e Create" by (simp add: Has_def Create_def)
  have r: "RobloxLogFile w0 (Prefix b0) =
       ([MkdirAll logdir0, NewWatcher, WatcherAdd logdir0, NewTimer timeout,
         Slog LError ''Recieved fsnotify watcher error'', WatcherClose],
        Some (''/logs/0.log'', None))"
    using log_discovery_race [of w0 "Prefix b0" logdir0 ?pre ?e "[TimerC]"] i p s c by simp
  have r1: "RobloxLogFile ?w1 (Prefix b0) =
       ([MkdirAll logdir0, NewWatcher, WatcherAdd logdir0, NewTimer timeout,
         Slog LError ''Recieved fsnotify watcher error'', WatcherClose],
        Some ([], Some (Errorf ''roblox log file not found after %s'' [ArgDuration timeout])))"
    using log_discovery_race [of ?w1 "Prefix b0" logdir0 "[ErrorC (Opaque ''overflow'')]" _ "[]"] i1 p1 s1
    by simp
  have m: "WatcherAdd logdir0 \<in> set (fst (RobloxLogFile w0 (Prefix b0)))"
    by (simp add: r)
  from i s c r i1 r1 m show ?thesis by blast
qed

section \<open>The goroutine after the launch\<close>

lemma wait_loop_post: "filter post_event (fst (wait_loop cs)) = []"
  by (induction cs rule: wait_loop.induct) auto

lemma RobloxLogFile_post: "filter post_event (fst (RobloxLogFile w pfx)) = []"
  by (simp add: RobloxLogFile_def Let_def wait_loop_post split: sum.splits option.splits)

lemma tail_lines_post: "filter post_event (fst (tail_lines w b ls)) = []"
  by (induction ls) (auto split: option.splits)

lemma Tail_post: "filter post_event (fst (Tail w b lf)) = [TailFile lf]"
  by (simp add: Tail_def tail_lines_post split: option.splits)

lemma RegisterGameMode_post:
  "filter post_event (RegisterGameMode w pid) = [CallRegisterGameMode pid]"
  by (simp add: RegisterGameMode_def split: option.splits)

lemma post_launch_found:
  assumes "cmd_pid (cmd_Run w) = Some pid" and "RobloxLogFile w (Prefix b) = (tr, Some (lf, None))"
  shows "post_launch w b =
           (tr @ [SplashClose]
              @ (if GameMode (b_Config b) then RegisterGameMode w (int32 pid) else [])
              @ fst (Tail w b lf), snd (Tail w b lf))"
  using assms by (simp add: post_launch_def)

lemma post_launch_failed:
  assumes "cmd_pid (cmd_Run w) = Some pid" and "RobloxLogFile w (Prefix b) = (tr, Some (lf, Some err))"
  shows "post_launch w b = (tr @ [Slog LError ''Failed to find Roblox log file''], Finished)"
  using assms by (simp add: post_launch_def)

lemma post_launch_found_events:
  assumes "cmd_pid (cmd_Run w) = Some pid" and "RobloxLogFile w (Prefix b) = (tr, Some (lf, None))"
  shows "filter post_event (fst (post_launch w b)) =
           SplashClose # (if GameMode (b_Config b) then [CallRegisterGameMode (int32 pid)] else [])
             @ [TailFile lf]"
proof -
  have "filter post_event tr = []"
    using RobloxLogFile_post [of w "Prefix b"] assms(2) by simp
  then show ?thesis
    by (simp add: post_launch_found [OF assms] Tail_post RegisterGameMode_post)
qed

lemma b_Config_set_DiscordRPC: "b_Config (set_DiscordRPC v b) = (b_Config b)\<lparr>DiscordRPC := v\<rparr>"
  by (simp add: b_Config_def set_DiscordRPC_def cfg_at_store)

lemma set_DiscordRPC_fields:
  "Prefix (set_DiscordRPC v b) = Prefix b"
  "Type (set_DiscordRPC v b) = Type b"
  "Alias (set_DiscordRPC v b) = Alias b"
  "Dir (set_DiscordRPC v b) = Dir b"
  "MultipleInstances (GlobalConfig (set_DiscordRPC v b)) = MultipleInstances (GlobalConfig b)"
  by (cases "Config b"; simp add: set_DiscordRPC_def)+

lemma run_connect_cases:
  "fst (run_connect w b) = b \<or> fst (run_connect w b) = set_DiscordRPC False b"
  by (simp add: run_connect_def split: option.splits)

lemma run_connect_keeps:
  "Prefix (fst (run_connect w b)) = Prefix b"
  "Type (fst (run_connect w b)) = Type b"
  "GameMode (b_Config (fst (run_connect w b))) = GameMode (b_Config b)"
  "MultipleInstances (GlobalConfig (fst (run_connect w b))) = MultipleInstances (GlobalConfig b)"
  using run_connect_cases [of w b]
  by (auto simp: set_DiscordRPC_fields b_Config_set_DiscordRPC)

lemma Run_bin: "bin (Run w b args) = fst (run_connect w b)"
  by (simp add: Run_def split: prod.splits option.splits sum.splits)

lemma Run_post_task:
  "(PostLaunchTask, t) \<in> set (tasks (Run w b args)) \<Longrightarrow>
     t = post_launch w (fst (run_connect w b)) \<and> res (Run w b args) = run_wait (cmd_Run w)"
  by (auto simp: Run_def run_mutexer_def Let_def split: prod.splits option.splits sum.splits if_splits)

lemma run_wait_Exits: "run_wait (Exits pid e) = Return (map_option (Wrapf ''roblox process: %w'' []) e)"
  by (cases e) simp_all

lemma int32_sint: "- 2147483648 \<le> pid \<Longrightarrow> pid < 2147483648 \<Longrightarrow> sint (int32 pid) = pid"
  by (simp add: int32_def sint_sbintrunc' signed_take_bit_int_eq_self)

lemma Run_flow_events: "\<forall>e\<in>set (flow (Run w b args)). run_event e"
  by (auto simp: Run_def run_connect_def run_mutexer_def run_deferred_def Let_def
      split: prod.splits option.splits sum.splits if_splits)

lemma filter_none: "\<forall>e\<in>set xs. Q e \<Longrightarrow> (\<And>e. Q e \<Longrightarrow> \<not> P e) \<Longrightarrow> filter P xs = []"
  by (induction xs) auto

lemma run_event_not_post: "run_event e \<Longrightarrow> \<not> post_event e"
  by (cases e) simp_all

lemma Run_flow_post: "filter post_event (flow (Run w b args)) = []"
  using Run_flow_events run_event_not_post by (rule filter_none)

lemma signal_relay_post: "filter post_event (fst (fst (signal_relay sigs))) = []"
  by (induction sigs rule: signal_relay.induct) auto

lemma mutexer_task_post: "filter post_event (fst (mutexer_task w)) = []"
  by (simp add: mutexer_task_def split: option.splits)

lemma Run_tasks_post:
  "\<forall>kt\<in>set (tasks (Run w b args)).
     fst kt \<noteq> PostLaunchTask \<longrightarrow> filter post_event (fst (snd kt)) = []"
  by (auto simp: Run_def run_mutexer_def Let_def mutexer_task_post signal_relay_post
      split: prod.splits option.splits sum.splits if_splits)

lemma Run_post_task_once:
  "(PostLaunchTask, t) \<in> set (tasks (Run w b args)) \<Longrightarrow>
   count_list (map fst (tasks (Run w b args))) PostLaunchTask = 1"
  by (auto simp: Run_def run_mutexer_def Let_def
      split: prod.splits option.splits sum.splits if_splits)

text \<open>
  Claim C2. Take a run of \<^verbatim>\<open>Run\<close> that starts the goroutine after the launch, with a
  child that has a pid. When \<^verbatim>\<open>RobloxLogFile\<close> returns a path and no error, the
  goroutine closes the splash window, calls \<^verbatim>\<open>RegisterGameMode\<close> once with
  \<^verbatim>\<open>int32\<close> of the pid when \<^verbatim>\<open>GameMode\<close> is set (and not at all otherwise), and
  starts to tail the file, in this order, once each, and after all events of the
  discovery, whose own trace has none of the three. When \<^verbatim>\<open>RobloxLogFile\<close> returns an
  error (the timeout too), the goroutine logs one error and ends: none of the three
  happens. Nowhere else in the run does one of the three happen: not in the flow of
  \<^verbatim>\<open>Run\<close> itself, not in any other goroutine that it starts, and the goroutine after
  the launch is started once only. In both cases the result of \<^verbatim>\<open>Run\<close> is what
  \<^verbatim>\<open>cmd.Run()\<close> gives: the wrapped error of the child, or nil. A pid in the range of
  \<^verbatim>\<open>int32\<close> is passed on unchanged by the conversion; the process ids of the
  operating system are in this range.
\<close>

theorem post_launch_after_discovery:
  assumes task: "(PostLaunchTask, t) \<in> set (tasks (Run w b args))"
    and pid: "cmd_pid (cmd_Run w) = Some pid"
    and disc: "RobloxLogFile w (Prefix b) = (tr, Some (lf, err))"
  shows "(err = None \<longrightarrow>
            filter post_event (fst t) =
              SplashClose
                # (if GameMode (b_Config b) then [CallRegisterGameMode (int32 pid)] else [])
                @ [TailFile lf]
            \<and> (\<exists>rest. fst t = tr @ SplashClose # rest)
            \<and> filter post_event tr = [])
       \<and> (err \<noteq> None \<longrightarrow>
            t = (tr @ [Slog LError ''Failed to find Roblox log file''], Finished)
            \<and> filter post_event (fst t) = [])
       \<and> filter post_event (flow (Run w b args)) = []
       \<and> (\<forall>kt\<in>set (tasks (Run w b args)).
            fst kt \<noteq> PostLaunchTask \<longrightarrow> filter post_event (fst (snd kt)) = [])
       \<and> count_list (map fst (tasks (Run w b args))) PostLaunchTask = 1
       \<and> res (Run w b args) = run_wait (cmd_Run w)
       \<and> (\<forall>p e. cmd_Run w = Exits p e \<longrightarrow>
            res (Run w b args) = Return (map_option (Wrapf ''roblox process: %w'' []) e))
       \<and> (- 2147483648 \<le> pid \<and> pid < 2147483648 \<longrightarrow> sint (int32 pid) = pid)"
proof -
  let ?b1 = "fst (run_connect w b)"
  from Run_post_task [OF task]
  have t: "t = post_launch w ?b1" and r: "res (Run w b args) = run_wait (cmd_Run w)"
    by simp_all
  have disc1: "RobloxLogFile w (Prefix ?b1) = (tr, Some (lf, err))"
    using disc by (simp add: run_connect_keeps)
  have notr: "filter post_event tr = []"
    using RobloxLogFile_post [of w "Prefix b"] disc by simp
  have found: "err = None \<longrightarrow>
            filter post_event (fst t) =
              SplashClose
                # (if GameMode (b_Config b) then [CallRegisterGameMode (int32 pid)] else [])
                @ [TailFile lf]
            \<and> (\<exists>rest. fst t = tr @ SplashClose # rest)
            \<and> filter post_event tr = []"
  proof
    assume e: "err = None"
    with disc1 have d: "RobloxLogFile w (Prefix ?b1) = (tr, Some (lf, None))" by simp
    show "filter post_event (fst t) =
              SplashClose
                # (if GameMode (b_Config b) then [CallRegisterGameMode (int32 pid)] else [])
                @ [TailFile lf]
            \<and> (\<exists>rest. fst t = tr @ SplashClose # rest)
            \<and> filter post_event tr = []"
      using post_launch_found_events [OF pid d] post_launch_found [OF pid d] notr
      by (simp add: t run_connect_keeps)
  qed
  have failed: "err \<noteq> None \<longrightarrow>
            t = (tr @ [Slog LError ''Failed to find Roblox log file''], Finished)
            \<and> filter post_event (fst t) = []"
  proof
    assume "err \<noteq> None"
    then obtain e where "err = Some e" by blast
    with disc1 have d: "RobloxLogFile w (Prefix ?b1) = (tr, Some (lf, Some e))" by simp
    show "t = (tr @ [Slog LError ''Failed to find Roblox log file''], Finished)
            \<and> filter post_event (fst t) = []"
      using post_launch_failed [OF pid d] notr by (simp add: t)
  qed
  have exits: "\<forall>p e. cmd_Run w = Exits p e \<longrightarrow>
            res (Run w b args) = Return (map_option (Wrapf ''roblox process: %w'' []) e)"
    by (simp add: r run_wait_Exits)
  note whole = Run_flow_post [of w b args] Run_tasks_post [of w b args]
    Run_post_task_once [OF task]
  from found failed whole r exits int32_sint [of pid] show ?thesis by blast
qed

theorem post_launch_after_discovery_witness:
  "(PostLaunchTask, post_launch w0 b0) \<in> set (tasks (Run w0 b0 []))
   \<and> cmd_pid (cmd_Run w0) = Some 4242
   \<and> RobloxLogFile w0 (Prefix b0) =
       ([MkdirAll logdir0, NewWatcher, WatcherAdd logdir0, NewTimer timeout,
         Slog LError ''Recieved fsnotify watcher error'', WatcherClose],
        Some (''/logs/0.log'', None))
   \<and> GameMode (b_Config b0)
   \<and> filter post_event (fst (post_launch w0 b0)) =
       [SplashClose, CallRegisterGameMode 4242, TailFile ''/logs/0.log'']
   \<and> filter post_event (flow (Run w0 b0 [])) = []
   \<and> map fst (tasks (Run w0 b0 [])) = [MutexerTask, RelayTask, PostLaunchTask]
   \<and> (MutexerTask, mutexer_task w0) \<in> set (tasks (Run w0 b0 []))
   \<and> filter post_event (fst (mutexer_task w0)) = []
   \<and> (RelayTask, fst (signal_relay (signals w0))) \<in> set (tasks (Run w0 b0 []))
   \<and> filter post_event (fst (fst (signal_relay (signals w0)))) = []
   \<and> count_list (map fst (tasks (Run w0 b0 []))) PostLaunchTask = 1
   \<and> res (Run w0 b0 []) = Return None
   \<and> sint (int32 4242) = 4242
   \<and> (PostLaunchTask, post_launch (w0\<lparr>selects := [TimerC]\<rparr>) b0)
        \<in> set (tasks (Run (w0\<lparr>selects := [TimerC]\<rparr>) b0 []))
   \<and> post_launch (w0\<lparr>selects := [TimerC]\<rparr>) b0 =
       ([MkdirAll logdir0, NewWatcher, WatcherAdd logdir0, NewTimer timeout, WatcherClose,
         Slog LError ''Failed to find Roblox log file''], Finished)
   \<and> filter post_event (fst (post_launch (w0\<lparr>selects := [TimerC]\<rparr>) b0)) = []
   \<and> filter post_event (flow (Run (w0\<lparr>selects := [TimerC]\<rparr>) b0 [])) = []
   \<and> count_list (map fst (tasks (Run (w0\<lparr>selects := [TimerC]\<rparr>) b0 []))) PostLaunchTask = 1
   \<and> res (Run (w0\<lparr>selects := [TimerC]\<rparr>) b0 []) = Return None"
proof -
  let ?w1 = "w0\<lparr>selects := [TimerC]\<rparr>"
  let ?tr1 = "[MkdirAll logdir0, NewWatcher, WatcherAdd logdir0, NewTimer timeout, WatcherClose]"
  have t: "(PostLaunchTask, post_launch w0 b0) \<in> set (tasks (Run w0 b0 []))"
    by (simp add: run_defs conc_defs)
  have t1: "(PostLaunchTask, post_launch ?w1 b0) \<in> set (tasks (Run ?w1 b0 []))"
    by (simp add: run_defs conc_defs)
  have ks: "map fst (tasks (Run w0 b0 [])) = [MutexerTask, RelayTask, PostLaunchTask]"
    by (simp add: run_defs conc_defs)
  have mt: "(MutexerTask, mutexer_task w0) \<in> set (tasks (Run w0 b0 []))"
    by (simp add: run_defs conc_defs)
  have rt: "(RelayTask, fst (signal_relay (signals w0))) \<in> set (tasks (Run w0 b0 []))"
    by (simp add: run_defs conc_defs)
  have p: "cmd_pid (cmd_Run w0) = Some 4242" "cmd_pid (cmd_Run ?w1) = Some 4242"
    by (simp_all add: w0_def)
  have d: "RobloxLogFile w0 (Prefix b0) =
       ([MkdirAll logdir0, NewWatcher, WatcherAdd logdir0, NewTimer timeout,
         Slog LError ''Recieved fsnotify watcher error'', WatcherClose],
        Some (''/logs/0.log'', None))"
    by (simp add: RobloxLogFile_def logdir0_def conc_defs Let_def Has_def Create_def)
  have d1: "RobloxLogFile ?w1 (Prefix b0) =
       (?tr1, Some ([], Some (Errorf ''roblox log file not found after %s'' [ArgDuration timeout])))"
    by (simp add: RobloxLogFile_def logdir0_def conc_defs Let_def)
  have g: "GameMode (b_Config b0)" by (simp add: conc_defs)
  have x: "cmd_Run w0 = Exits 4242 None" "cmd_Run ?w1 = Exits 4242 None"
    by (simp_all add: w0_def)
  note found = post_launch_after_discovery [OF t p(1) d]
  note failed = post_launch_after_discovery [OF t1 p(2) d1]
  from found g x(1)
  have a: "filter post_event (fst (post_launch w0 b0)) =
       [SplashClose, CallRegisterGameMode 4242, TailFile ''/logs/0.log'']
     \<and> res (Run w0 b0 []) = Return None \<and> sint (int32 4242) = 4242"
    by (simp add: int32_def)
  from found have fl: "filter post_event (flow (Run w0 b0 [])) = []"
    and once: "count_list (map fst (tasks (Run w0 b0 []))) PostLaunchTask = 1"
    and others: "\<forall>kt\<in>set (tasks (Run w0 b0 [])).
            fst kt \<noteq> PostLaunchTask \<longrightarrow> filter post_event (fst (snd kt)) = []"
    by blast+
  from bspec [OF others mt] have m0: "filter post_event (fst (mutexer_task w0)) = []"
    by simp
  from bspec [OF others rt] have r0: "filter post_event (fst (fst (signal_relay (signals w0)))) = []"
    by simp
  from failed x(2)
  have b: "post_launch ?w1 b0 = (?tr1 @ [Slog LError ''Failed to find Roblox log file''], Finished)
     \<and> filter post_event (fst (post_launch ?w1 b0)) = []
     \<and> res (Run ?w1 b0 []) = Return None"
    by simp
  from failed have fl1: "filter post_event (flow (Run ?w1 b0 [])) = []"
    and once1: "count_list (map fst (tasks (Run ?w1 b0 []))) PostLaunchTask = 1"
    by blast+
  from t p(1) d g a fl ks mt m0 rt r0 once t1 b fl1 once1 show ?thesis by simp
qed

section \<open>A failed connection of the activity reporter\<close>

lemma wait_loop_handle: "filter is_handle_log (fst (wait_loop cs)) = []"
  by (induction cs rule: wait_loop.induct) auto

lemma RobloxLogFile_handle: "filter is_handle_log (fst (RobloxLogFile w pfx)) = []"
  by (simp add: RobloxLogFile_def Let_def wait_loop_handle split: sum.splits option.splits)

lemma tail_lines_handle:
  "\<not> DiscordRPC (b_Config b) \<Longrightarrow> filter is_handle_log (fst (tail_lines w b ls)) = []"
  by (induction ls) (auto split: option.splits)

lemma Tail_handle:
  "\<not> DiscordRPC (b_Config b) \<Longrightarrow> filter is_handle_log (fst (Tail w b lf)) = []"
  by (simp add: Tail_def tail_lines_handle split: option.splits)

lemma RegisterGameMode_handle: "filter is_handle_log (RegisterGameMode w pid) = []"
  by (simp add: RegisterGameMode_def split: option.splits)

lemma post_launch_handle:
  "\<not> DiscordRPC (b_Config b) \<Longrightarrow> filter is_handle_log (fst (post_launch w b)) = []"
  using RobloxLogFile_handle [of w "Prefix b"]
  by (auto simp: post_launch_def Tail_handle RegisterGameMode_handle
      split: option.splits prod.splits)

lemma signal_relay_handle: "filter is_handle_log (fst (fst (signal_relay sigs))) = []"
  by (induction sigs rule: signal_relay.induct) auto

lemma mutexer_task_handle: "filter is_handle_log (fst (mutexer_task w)) = []"
  by (simp add: mutexer_task_def split: option.splits)

lemma run_mutexer_handle:
  "filter is_handle_log (fst (snd (run_mutexer w b))) = []"
  "\<forall>kt\<in>set (snd (snd (run_mutexer w b))). filter is_handle_log (fst (snd kt)) = []"
  by (simp_all add: run_mutexer_def Let_def mutexer_task_handle split: option.splits)

lemma run_connect_failed:
  "DiscordRPC (b_Config b) \<Longrightarrow> Activity_Connect w = Some err \<Longrightarrow>
   run_connect w b =
     (set_DiscordRPC False b,
      [ActivityConnect, Slog LError ''Could not connect to Discord RPC''], False)"
  by (simp add: run_connect_def)

lemma run_connect_off:
  "\<not> DiscordRPC (b_Config b) \<Longrightarrow> run_connect w b = (b, [], False)"
  by (simp add: run_connect_def)

lemma set_DiscordRPC_twice: "set_DiscordRPC v (set_DiscordRPC v' b) = set_DiscordRPC v b"
  by (cases "Config b") (simp_all add: set_DiscordRPC_def b_Config_def)

lemma Run_flow_handle_off:
  assumes "run_connect w b = (b1, t1, c)" and "\<not> DiscordRPC (b_Config b1)"
    and "filter is_handle_log t1 = []"
  shows "filter is_handle_log (flow (Run w b args)) = []"
  using assms run_mutexer_handle(1) [of w b1]
  by (auto simp: Run_def run_deferred_def split: prod.splits option.splits sum.splits)

lemma Run_tasks_handle_off:
  assumes "run_connect w b = (b1, t1, c)" and "\<not> DiscordRPC (b_Config b1)"
  shows "\<forall>kt\<in>set (tasks (Run w b args)). filter is_handle_log (fst (snd kt)) = []"
  using assms run_mutexer_handle(2) [of w b1] post_launch_handle [of b1 w]
    signal_relay_handle [of "signals w"]
  by (auto simp: Run_def split: prod.splits option.splits sum.splits)

lemma Run_res_connect:
  "res (Run w b args) = res (Run w (fst (run_connect w b)) args)"
proof -
  have idem: "fst (run_connect w (fst (run_connect w b))) = fst (run_connect w b)"
    by (auto simp: run_connect_def b_Config_set_DiscordRPC split: option.splits)
  obtain b1 t1 c where rc: "run_connect w b = (b1, t1, c)" by (cases "run_connect w b")
  obtain t1' c' where rc': "run_connect w b1 = (b1, t1', c')"
    using idem rc by (cases "run_connect w b1") simp
  show ?thesis
    by (simp add: Run_def rc rc' split: prod.splits option.splits sum.splits)
qed

text \<open>
  Claim C7. If \<^verbatim>\<open>DiscordRPC\<close> is set and \<^verbatim>\<open>Activity.Connect\<close> fails at the start of
  \<^verbatim>\<open>Run\<close>, then the failure is logged as the second event of the run,
  \<^verbatim>\<open>DiscordRPC\<close> is false in the \<^verbatim>\<open>Binary\<close> afterwards, no \<^verbatim>\<open>Activity.Close\<close> is
  deferred, \<^verbatim>\<open>HandleRobloxLog\<close> is called neither in the calling flow nor in any
  goroutine of the run, whatever lines are tailed, and the result of \<^verbatim>\<open>Run\<close> is the
  result of the same run with the reporting switched off in the configuration.
\<close>

theorem activity_disabled_after_connect_failure:
  assumes on: "DiscordRPC (b_Config b)" and fail: "Activity_Connect w = Some err"
  shows "filter is_handle_log (flow (Run w b args)) = []
       \<and> (\<forall>kt\<in>set (tasks (Run w b args)). filter is_handle_log (fst (snd kt)) = [])
       \<and> \<not> DiscordRPC (b_Config (bin (Run w b args)))
       \<and> (\<exists>rest. flow (Run w b args) =
             ActivityConnect # Slog LError ''Could not connect to Discord RPC'' # rest)
       \<and> ActivityClose \<notin> set (flow (Run w b args))
       \<and> res (Run w b args) = res (Run w (set_DiscordRPC False b) args)"
proof -
  note rc = run_connect_failed [OF on fail]
  have off: "\<not> DiscordRPC (b_Config (set_DiscordRPC False b))"
    by (simp add: b_Config_set_DiscordRPC)
  have 1: "filter is_handle_log (flow (Run w b args)) = []"
    using Run_flow_handle_off [OF rc off] by simp
  have 2: "\<forall>kt\<in>set (tasks (Run w b args)). filter is_handle_log (fst (snd kt)) = []"
    by (rule Run_tasks_handle_off [OF rc off])
  have 3: "\<not> DiscordRPC (b_Config (bin (Run w b args)))"
    by (simp add: Run_bin rc off)
  have 4: "\<exists>rest. flow (Run w b args) =
             ActivityConnect # Slog LError ''Could not connect to Discord RPC'' # rest"
    by (simp add: Run_def rc split: prod.splits option.splits sum.splits)
  have 5: "ActivityClose \<notin> set (flow (Run w b args))"
    by (auto simp: Run_def rc run_deferred_def run_mutexer_def Let_def
        split: prod.splits option.splits sum.splits if_splits)
  have 6: "res (Run w b args) = res (Run w (set_DiscordRPC False b) args)"
    using Run_res_connect [of w b args] by (simp add: rc)
  from 1 2 3 4 5 6 show ?thesis by blast
qed

theorem activity_disabled_after_connect_failure_witness:
  "DiscordRPC (b_Config b0)
   \<and> Activity_Connect (w0\<lparr>Activity_Connect := Some (Opaque ''no discord'')\<rparr>) =
       Some (Opaque ''no discord'')
   \<and> filter is_handle_log (flow (Run (w0\<lparr>Activity_Connect := Some (Opaque ''no discord'')\<rparr>) b0 [])) = []
   \<and> (PostLaunchTask, post_launch (w0\<lparr>Activity_Connect := Some (Opaque ''no discord'')\<rparr>)
         (set_DiscordRPC False b0))
        \<in> set (tasks (Run (w0\<lparr>Activity_Connect := Some (Opaque ''no discord'')\<rparr>) b0 []))
   \<and> filter is_handle_log
        (fst (post_launch (w0\<lparr>Activity_Connect := Some (Opaque ''no discord'')\<rparr>)
           (set_DiscordRPC False b0))) = []
   \<and> res (Run (w0\<lparr>Activity_Connect := Some (Opaque ''no discord'')\<rparr>) b0 []) = Return None
   \<and> filter is_handle_log (fst (post_launch w0 b0)) = [ActivityHandleRobloxLog ''line one'']"
proof -
  let ?w = "w0\<lparr>Activity_Connect := Some (Opaque ''no discord'')\<rparr>"
  have on: "DiscordRPC (b_Config b0)" by (simp add: conc_defs)
  have fail: "Activity_Connect ?w = Some (Opaque ''no discord'')" by simp
  have t: "(PostLaunchTask, post_launch ?w (set_DiscordRPC False b0)) \<in> set (tasks (Run ?w b0 []))"
    by (simp add: run_defs set_DiscordRPC_def conc_defs)
  have r: "res (Run ?w (set_DiscordRPC False b0) []) = Return None"
    by (simp add: run_defs set_DiscordRPC_def conc_defs)
  have o: "filter is_handle_log (fst (post_launch w0 b0)) = [ActivityHandleRobloxLog ''line one'']"
    by (simp add: post_launch_def RobloxLogFile_def Tail_def RegisterGameMode_def Let_def
        Has_def Create_def conc_defs)
  from activity_disabled_after_connect_failure [OF on fail, of "[]"] t r
  have "filter is_handle_log (flow (Run ?w b0 [])) = []
     \<and> filter is_handle_log (fst (post_launch ?w (set_DiscordRPC False b0))) = []
     \<and> res (Run ?w b0 []) = Return None"
    by fastforce
  with on fail t o show ?thesis by simp
qed


section \<open>The helper that holds the mutex\<close>

lemma run_mutexer_on_fail:
  "MultipleInstances (GlobalConfig b) \<Longrightarrow> Type b = Player \<Longrightarrow> mutexer_Start w = Some err \<Longrightarrow>
   run_mutexer w b =
     (Some (Wrapf ''start robloxmutexer: %w'' [] err),
      [Slog LInfo ''Running robloxmutexer'',
       MutexerStart (Wine w (Prefix b) (filepath_Join w [BinPrefix w, ''robloxmutexer.exe'']) [])],
      [])"
  by (simp add: run_mutexer_def)

lemma run_mutexer_on_ok:
  "MultipleInstances (GlobalConfig b) \<Longrightarrow> Type b = Player \<Longrightarrow> mutexer_Start w = None \<Longrightarrow>
   run_mutexer w b =
     (None,
      [Slog LInfo ''Running robloxmutexer'',
       MutexerStart (Wine w (Prefix b) (filepath_Join w [BinPrefix w, ''robloxmutexer.exe'']) []),
       Go MutexerTask],
      [(MutexerTask, mutexer_task w)])"
  by (simp add: run_mutexer_def)

lemma run_connect_flow_launch: "filter is_launch (fst (snd (run_connect w b))) = []"
  by (simp add: run_connect_def split: option.splits)

lemma run_connect_flow_helper: "filter helper_or_child (fst (snd (run_connect w b))) = []"
  by (simp add: run_connect_def split: option.splits)

lemma run_deferred_launch:
  "filter is_launch (run_deferred c r) = []" "filter helper_or_child (run_deferred c r) = []"
  by (simp_all add: run_deferred_def)

text \<open>
  Claim C8, as amended. With \<^verbatim>\<open>MultipleInstances\<close> set and the Player variant,
  \<^verbatim>\<open>Run\<close> starts the helper \<^verbatim>\<open>robloxmutexer.exe\<close> of the prefix once, and before
  any launch of the child: among the starts of the helper and the launches of the
  child in the flow of \<^verbatim>\<open>Run\<close>, the start of the helper comes first and only launches
  follow. If the start of the helper fails, \<^verbatim>\<open>Run\<close> returns the error wrapped as
  \<^verbatim>\<open>start robloxmutexer\<close> and the child is not launched. Once the helper is started
  it is fire and forget: a goroutine is started that waits for it, the child is
  launched once when its command can be built and the result of \<^verbatim>\<open>Run\<close> is then the
  one of \<^verbatim>\<open>cmd.Run()\<close>, an exit of the helper with an error is only logged (with
  \<^verbatim>\<open>slog.Error\<close>), and neither the result of \<^verbatim>\<open>Run\<close> nor the events of its flow
  depend on how or whether the helper exits.
\<close>

theorem mutexer_helper_failures:
  assumes multi: "MultipleInstances (GlobalConfig b)" and player: "Type b = Player"
  shows "filter helper_or_child (flow (Run w b args)) =
           MutexerStart (Wine w (Prefix b) (filepath_Join w [BinPrefix w, ''robloxmutexer.exe'']) [])
             # filter is_launch (flow (Run w b args))
       \<and> (\<forall>err. mutexer_Start w = Some err \<longrightarrow>
            res (Run w b args) = Return (Some (Wrapf ''start robloxmutexer: %w'' [] err))
            \<and> filter is_launch (flow (Run w b args)) = [])
       \<and> (mutexer_Start w = None \<longrightarrow>
            (MutexerTask, mutexer_task w) \<in> set (tasks (Run w b args))
            \<and> Go MutexerTask \<in> set (flow (Run w b args))
            \<and> (\<forall>cmd. Command w (bin (Run w b args)) args = Some (Inr cmd) \<longrightarrow>
                 filter is_launch (flow (Run w b args)) = [CmdRun cmd]
                 \<and> res (Run w b args) = run_wait (cmd_Run w))
            \<and> res (Run (w\<lparr>mutexer_Wait := x\<rparr>) b args) = res (Run w b args)
            \<and> flow (Run (w\<lparr>mutexer_Wait := x\<rparr>) b args) = flow (Run w b args)
            \<and> set (fst (mutexer_task w)) \<subseteq> {Slog LError ''robloxmutexer returned too early''}
            \<and> (\<forall>e. mutexer_Wait w = Some (Some e) \<longrightarrow>
                 mutexer_task w = ([Slog LError ''robloxmutexer returned too early''], Finished)))"
proof -
  let ?m = "Wine w (Prefix b) (filepath_Join w [BinPrefix w, ''robloxmutexer.exe'']) []"
  obtain b1 t1 c where rc: "run_connect w b = (b1, t1, c)" by (cases "run_connect w b")
  have m1: "MultipleInstances (GlobalConfig b1)" and p1: "Type b1 = Player"
    and x1: "Prefix b1 = Prefix b"
    using multi player run_connect_keeps(1,2,4) [of w b] by (simp_all add: rc)
  have bin: "bin (Run w b args) = b1"
    by (simp add: Run_bin rc)
  have t1: "filter is_launch t1 = []" "filter helper_or_child t1 = []"
    using run_connect_flow_launch [of w b] run_connect_flow_helper [of w b] by (simp_all add: rc)
  have order: "filter helper_or_child (flow (Run w b args)) =
           MutexerStart ?m # filter is_launch (flow (Run w b args))"
  proof (cases "mutexer_Start w")
    case (Some err)
    show ?thesis
      using t1 by (simp add: Run_def rc run_mutexer_on_fail [OF m1 p1 Some] run_deferred_launch x1)
  next
    case None
    show ?thesis
      using t1
      by (simp add: Run_def rc run_mutexer_on_ok [OF m1 p1 None] run_deferred_launch x1
          split: option.splits sum.splits)
  qed
  have fail: "\<forall>err. mutexer_Start w = Some err \<longrightarrow>
            res (Run w b args) = Return (Some (Wrapf ''start robloxmutexer: %w'' [] err))
            \<and> filter is_launch (flow (Run w b args)) = []"
  proof (intro allI impI)
    fix err assume s: "mutexer_Start w = Some err"
    show "res (Run w b args) = Return (Some (Wrapf ''start robloxmutexer: %w'' [] err))
            \<and> filter is_launch (flow (Run w b args)) = []"
      using t1 by (simp add: Run_def rc run_mutexer_on_fail [OF m1 p1 s] run_deferred_def)
  qed
  have ok: "mutexer_Start w = None \<longrightarrow>
            (MutexerTask, mutexer_task w) \<in> set (tasks (Run w b args))
            \<and> Go MutexerTask \<in> set (flow (Run w b args))
            \<and> (\<forall>cmd. Command w (bin (Run w b args)) args = Some (Inr cmd) \<longrightarrow>
                 filter is_launch (flow (Run w b args)) = [CmdRun cmd]
                 \<and> res (Run w b args) = run_wait (cmd_Run w))
            \<and> res (Run (w\<lparr>mutexer_Wait := x\<rparr>) b args) = res (Run w b args)
            \<and> flow (Run (w\<lparr>mutexer_Wait := x\<rparr>) b args) = flow (Run w b args)
            \<and> set (fst (mutexer_task w)) \<subseteq> {Slog LError ''robloxmutexer returned too early''}
            \<and> (\<forall>e. mutexer_Wait w = Some (Some e) \<longrightarrow>
                 mutexer_task w = ([Slog LError ''robloxmutexer returned too early''], Finished))"
  proof
    assume s: "mutexer_Start w = None"
    have a: "(MutexerTask, mutexer_task w) \<in> set (tasks (Run w b args))"
      by (simp add: Run_def rc run_mutexer_on_ok [OF m1 p1 s] split: option.splits sum.splits)
    have g: "Go MutexerTask \<in> set (flow (Run w b args))"
      by (simp add: Run_def rc run_mutexer_on_ok [OF m1 p1 s] split: option.splits sum.splits)
    have l: "\<forall>cmd. Command w (bin (Run w b args)) args = Some (Inr cmd) \<longrightarrow>
                 filter is_launch (flow (Run w b args)) = [CmdRun cmd]
                 \<and> res (Run w b args) = run_wait (cmd_Run w)"
      unfolding bin using t1
      by (simp add: Run_def rc run_mutexer_on_ok [OF m1 p1 s] run_deferred_launch)
    have same: "run_connect (w\<lparr>mutexer_Wait := x\<rparr>) b = run_connect w b"
      "Command (w\<lparr>mutexer_Wait := x\<rparr>) = Command w"
      "fst (run_mutexer (w\<lparr>mutexer_Wait := x\<rparr>) b') = fst (run_mutexer w b')"
      "fst (snd (run_mutexer (w\<lparr>mutexer_Wait := x\<rparr>) b')) = fst (snd (run_mutexer w b'))" for b'
      by (simp_all add: run_connect_def Command_def run_mutexer_def fun_eq_iff Let_def
          split: option.splits sum.splits)
    have b: "res (Run (w\<lparr>mutexer_Wait := x\<rparr>) b args) = res (Run w b args)"
      using same(3) [of b1]
      by (auto simp add: Run_def rc same(1,2) split: prod.splits option.splits sum.splits)
    have c: "flow (Run (w\<lparr>mutexer_Wait := x\<rparr>) b args) = flow (Run w b args)"
      using same(3,4) [of b1]
      by (auto simp add: Run_def rc same(1,2) split: prod.splits option.splits sum.splits)
    have d: "set (fst (mutexer_task w)) \<subseteq> {Slog LError ''robloxmutexer returned too early''}"
      by (simp add: mutexer_task_def split: option.splits)
    have e: "\<forall>e. mutexer_Wait w = Some (Some e) \<longrightarrow>
                 mutexer_task w = ([Slog LError ''robloxmutexer returned too early''], Finished)"
      by (simp add: mutexer_task_def)
    from a g l b c d e show "(MutexerTask, mutexer_task w) \<in> set (tasks (Run w b args))
            \<and> Go MutexerTask \<in> set (flow (Run w b args))
            \<and> (\<forall>cmd. Command w (bin (Run w b args)) args = Some (Inr cmd) \<longrightarrow>
                 filter is_launch (flow (Run w b args)) = [CmdRun cmd]
                 \<and> res (Run w b args) = run_wait (cmd_Run w))
            \<and> res (Run (w\<lparr>mutexer_Wait := x\<rparr>) b args) = res (Run w b args)
            \<and> flow (Run (w\<lparr>mutexer_Wait := x\<rparr>) b args) = flow (Run w b args)
            \<and> set (fst (mutexer_task w)) \<subseteq> {Slog LError ''robloxmutexer returned too early''}
            \<and> (\<forall>e. mutexer_Wait w = Some (Some e) \<longrightarrow>
                 mutexer_task w = ([Slog LError ''robloxmutexer returned too early''], Finished))"
      by blast
  qed
  from order fail ok show ?thesis by blast
qed

theorem mutexer_helper_failures_witness:
  "MultipleInstances (GlobalConfig b0) \<and> Type b0 = Player
   \<and> filter helper_or_child (flow (Run w0 b0 [])) =
       [MutexerStart \<lparr>Path = ''wine'', Args = [''wine'', ''/usr/robloxmutexer.exe'']\<rparr>,
        CmdRun \<lparr>Path = ''wine'', Args = [''wine'', ''/versions/v1/RobloxPlayerBeta.exe'']\<rparr>]
   \<and> (MutexerTask, mutexer_task w0) \<in> set (tasks (Run w0 b0 []))
   \<and> Go MutexerTask \<in> set (flow (Run w0 b0 []))
   \<and> res (Run w0 b0 []) = Return None
   \<and> mutexer_Start (w0\<lparr>mutexer_Start := Some (Opaque ''wine: not found'')\<rparr>) =
       Some (Opaque ''wine: not found'')
   \<and> res (Run (w0\<lparr>mutexer_Start := Some (Opaque ''wine: not found'')\<rparr>) b0 []) =
       Return (Some (Wrapf ''start robloxmutexer: %w'' [] (Opaque ''wine: not found'')))
   \<and> filter is_launch (flow (Run (w0\<lparr>mutexer_Start := Some (Opaque ''wine: not found'')\<rparr>) b0 [])) = []
   \<and> filter helper_or_child
        (flow (Run (w0\<lparr>mutexer_Start := Some (Opaque ''wine: not found'')\<rparr>) b0 [])) =
       [MutexerStart \<lparr>Path = ''wine'', Args = [''wine'', ''/usr/robloxmutexer.exe'']\<rparr>]
   \<and> mutexer_Start w0 = None
   \<and> res (Run (w0\<lparr>mutexer_Wait := Some (Some (Opaque ''exit status 1''))\<rparr>) b0 []) =
       res (Run w0 b0 [])
   \<and> flow (Run (w0\<lparr>mutexer_Wait := Some (Some (Opaque ''exit status 1''))\<rparr>) b0 []) =
       flow (Run w0 b0 [])
   \<and> mutexer_task (w0\<lparr>mutexer_Wait := Some (Some (Opaque ''exit status 1''))\<rparr>) =
       ([Slog LError ''robloxmutexer returned too early''], Finished)"
proof -
  let ?w1 = "w0\<lparr>mutexer_Start := Some (Opaque ''wine: not found'')\<rparr>"
  let ?w2 = "w0\<lparr>mutexer_Wait := Some (Some (Opaque ''exit status 1''))\<rparr>"
  let ?m = "\<lparr>Path = ''wine'', Args = [''wine'', ''/usr/robloxmutexer.exe'']\<rparr>"
  let ?c = "\<lparr>Path = ''wine'', Args = [''wine'', ''/versions/v1/RobloxPlayerBeta.exe'']\<rparr>"
  have m: "MultipleInstances (GlobalConfig b0)" and p: "Type b0 = Player"
    by (simp_all add: b0_def)
  have s: "mutexer_Start ?w1 = Some (Opaque ''wine: not found'')" "mutexer_Start w0 = None"
    "mutexer_Start ?w2 = None" "mutexer_Wait ?w2 = Some (Some (Opaque ''exit status 1''))"
    by (simp_all add: w0_def)
  have h: "Wine w0 (Prefix b0) (filepath_Join w0 [BinPrefix w0, ''robloxmutexer.exe'']) [] = ?m"
    "Wine ?w1 (Prefix b0) (filepath_Join ?w1 [BinPrefix ?w1, ''robloxmutexer.exe'']) [] = ?m"
    by (simp_all add: conc_defs)
  have k: "Command w0 (bin (Run w0 b0 [])) [] = Some (Inr ?c)"
    by (simp add: run_defs conc_defs)
  have x: "cmd_Run w0 = Exits 4242 None"
    by (simp add: w0_def)
  note ok = mutexer_helper_failures [OF m p, of w0 "[]" "Some (Some (Opaque ''exit status 1''))"]
  note bad = mutexer_helper_failures [OF m p, of ?w1 "[]"]
  note early = mutexer_helper_failures [OF m p, of ?w2 "[]"]
  from ok s(2) k
  have l: "filter is_launch (flow (Run w0 b0 [])) = [CmdRun ?c]"
    and r: "res (Run w0 b0 []) = run_wait (cmd_Run w0)"
    and tk: "(MutexerTask, mutexer_task w0) \<in> set (tasks (Run w0 b0 []))"
    and go: "Go MutexerTask \<in> set (flow (Run w0 b0 []))"
    and b: "res (Run ?w2 b0 []) = res (Run w0 b0 [])"
    and f: "flow (Run ?w2 b0 []) = flow (Run w0 b0 [])"
    by blast+
  from ok have "filter helper_or_child (flow (Run w0 b0 [])) =
      MutexerStart (Wine w0 (Prefix b0) (filepath_Join w0 [BinPrefix w0, ''robloxmutexer.exe'']) [])
        # filter is_launch (flow (Run w0 b0 []))"
    by blast
  then have o: "filter helper_or_child (flow (Run w0 b0 [])) = [MutexerStart ?m, CmdRun ?c]"
    by (simp only: h(1) l)
  have r0: "res (Run w0 b0 []) = Return None"
    by (simp add: r x)
  from bad s(1)
  have a: "res (Run ?w1 b0 []) =
       Return (Some (Wrapf ''start robloxmutexer: %w'' [] (Opaque ''wine: not found'')))
     \<and> filter is_launch (flow (Run ?w1 b0 [])) = []"
    by simp
  from bad have "filter helper_or_child (flow (Run ?w1 b0 [])) =
      MutexerStart (Wine ?w1 (Prefix b0) (filepath_Join ?w1 [BinPrefix ?w1, ''robloxmutexer.exe'']) [])
        # filter is_launch (flow (Run ?w1 b0 []))"
    by blast
  with a have o1: "filter helper_or_child (flow (Run ?w1 b0 [])) = [MutexerStart ?m]"
    by (simp only: h(2))
  from early s(3,4)
  have c: "mutexer_task ?w2 = ([Slog LError ''robloxmutexer returned too early''], Finished)"
    by simp
  from m p o tk go r0 s(1,2) a o1 b f c show ?thesis by simp
qed

text \<open>
  The claim as first stated, that no failure of the helper makes \<^verbatim>\<open>Run\<close> return an
  error or prevents the launch, fails when the helper cannot be started: the same run
  starts the helper, then launches the child and returns nil when the helper starts,
  and returns the wrapped error after the attempt to start the helper, without a
  launch, when it does not. The early exit of a started helper is logged with
  \<^verbatim>\<open>slog.Error\<close>, not as a warning.
\<close>

theorem mutexer_start_failure_counterexample:
  "MultipleInstances (GlobalConfig b0) \<and> Type b0 = Player
   \<and> res (Run w0 b0 []) = Return None
   \<and> filter helper_or_child (flow (Run w0 b0 [])) =
       [MutexerStart \<lparr>Path = ''wine'', Args = [''wine'', ''/usr/robloxmutexer.exe'']\<rparr>,
        CmdRun \<lparr>Path = ''wine'', Args = [''wine'', ''/versions/v1/RobloxPlayerBeta.exe'']\<rparr>]
   \<and> filter is_launch (flow (Run w0 b0 [])) =
       [CmdRun \<lparr>Path = ''wine'', Args = [''wine'', ''/versions/v1/RobloxPlayerBeta.exe'']\<rparr>]
   \<and> mutexer_Start (w0\<lparr>mutexer_Start := Some (Opaque ''wine: not found'')\<rparr>) =
       Some (Opaque ''wine: not found'')
   \<and> res (Run (w0\<lparr>mutexer_Start := Some (Opaque ''wine: not found'')\<rparr>) b0 []) =
       Return (Some (Wrapf ''start robloxmutexer: %w'' [] (Opaque ''wine: not found'')))
   \<and> filter helper_or_child
        (flow (Run (w0\<lparr>mutexer_Start := Some (Opaque ''wine: not found'')\<rparr>) b0 [])) =
       [MutexerStart \<lparr>Path = ''wine'', Args = [''wine'', ''/usr/robloxmutexer.exe'']\<rparr>]
   \<and> filter is_launch (flow (Run (w0\<lparr>mutexer_Start := Some (Opaque ''wine: not found'')\<rparr>) b0 [])) = []
   \<and> mutexer_task (w0\<lparr>mutexer_Wait := Some (Some (Opaque ''exit status 1''))\<rparr>) =
       ([Slog LError ''robloxmutexer returned too early''], Finished)"
  by (simp add: run_defs mutexer_task_def conc_defs)

section \<open>The signal relay\<close>



section \<open>The first run in \<^verbatim>\<open>Main\<close>\<close>

lemma run_event_not_setup: "run_event e \<Longrightarrow> \<not> setup_event e"
  by (cases e) simp_all

lemma Run_flow_setup: "filter setup_event (flow (Run w b args)) = []"
  using Run_flow_events run_event_not_setup by (rule filter_none)

lemma range_uris_trace:
  "\<forall>e\<in>set (snd st). run_event e \<Longrightarrow> \<forall>e\<in>set (snd (range_uris st uris)). run_event e"
proof (induction uris arbitrary: st)
  case Nil
  then show ?case by simp
next
  case (Cons uri uris)
  have "\<forall>e\<in>set (snd (handle_uri st uri)). run_event e"
    using Cons.prems by (cases "spec_token_value uri") (auto simp: handle_uri_cases)
  then show ?case using Cons.IH by simp
qed

lemma Main_protocol_trace: "\<forall>e\<in>set (snd (Main_protocol b args)). run_event e"
  using range_uris_trace [of "(b, [])"] by (simp add: Main_protocol_def HandleProtocolURI_def)

lemma Main_protocol_setup: "filter setup_event (snd (Main_protocol b args)) = []"
  using Main_protocol_trace run_event_not_setup by (rule filter_none)

lemma Main_protocol_channel:
  "Channel (b_Config (fst (Main_protocol b args))) = spec_channel args (Channel (b_Config b))"
proof (cases args)
  case Nil
  then show ?thesis by (simp add: Main_protocol_def spec_channel_def)
next
  case (Cons mime rest)
  then show ?thesis
    by (cases rest) (simp_all add: Main_protocol_def spec_channel_def HandleProtocolURI_channel)
qed

lemma Main_launch_setup:
  "filter setup_event (flow (Main_launch w b args)) =
     CallSetup # (if fst (Setup w b) = None then [CallRun args] else [])"
  by (simp add: Main_launch_def Run_flow_setup split: prod.splits option.splits)

lemma first_run_open: "first_run w (Main_open name b) = first_run w b"
  by (simp add: first_run_def Main_open_def set_output_def new_splash_def)

lemma Type_open: "Type (Main_open name b) = Type b"
  by (simp add: Main_open_def set_output_def new_splash_def)

lemma Main_flow_setup:
  assumes "LogFile w (Type b) = Inr name"
  shows "filter setup_event (flow (Main w b args)) =
           filter setup_event (flow (Main_steps w (first_run w b) (Main_open name b) args))"
    and "res (Main w b args) = res (Main_steps w (first_run w b) (Main_open name b) args)"
  using assms by (simp_all add: Main_def Main_deferred_def Let_def first_run_open)

lemma Main_steps_init_failed:
  assumes "fr \<or> FirstRun w" and "snd (prefix_init w (Type b)) = Some err"
  shows "res (Main_steps w fr b args) =
           Return (Some (Wrapf ''failed to init %s prefix: %w'' [ArgType (Type b)] err))"
    and "filter setup_event (flow (Main_steps w fr b args)) = [fst (prefix_init w (Type b))]"
  using assms by (cases "Type b"; simp add: Main_steps_def Main_init_def)+

lemma Main_steps_install_failed:
  assumes "fr \<or> FirstRun w" and "snd (prefix_init w (Type b)) = None"
    and "InstallWebView w b = (Some err, b2)"
  shows "res (Main_steps w fr b args) =
           Return (Some (Wrapf ''failed to install webview: %w'' [] err))"
    and "filter setup_event (flow (Main_steps w fr b args)) =
           [fst (prefix_init w (Type b)), CallInstallWebView]"
  using assms by (cases "Type b"; simp add: Main_steps_def Main_init_def)+

lemma Main_steps_install_ok:
  assumes "fr \<or> FirstRun w" and "snd (prefix_init w (Type b)) = None"
    and "InstallWebView w b = (None, b2)"
  shows "filter setup_event (flow (Main_steps w fr b args)) =
           fst (prefix_init w (Type b)) # CallInstallWebView # CallSetup
             # (if fst (Setup w (fst (Main_protocol b2 args))) = None then [CallRun args] else [])"
  using assms
  by (cases "Type b";
      simp add: Main_steps_def Main_init_def Let_def Main_launch_setup Main_protocol_setup)+

lemma Main_steps_not_first:
  assumes "\<not> (fr \<or> FirstRun w)"
  shows "filter setup_event (flow (Main_steps w fr b args)) =
           CallSetup # (if fst (Setup w (fst (Main_protocol b args))) = None then [CallRun args] else [])"
  using assms
  by (simp add: Main_steps_def Main_init_def Let_def Main_launch_setup Main_protocol_setup)

text \<open>
  Claim C5, as amended. Take a run of \<^verbatim>\<open>Main\<close> in which the log file of Vinegar
  could be created. If \<^verbatim>\<open>os.Stat\<close> of \<^verbatim>\<open>drive_c/windows\<close> under the prefix fails or the flag
  \<^verbatim>\<open>FirstRun\<close> is set, \<^verbatim>\<open>Main\<close> initialises the prefix, with \<^verbatim>\<open>Prefix.Init\<close> for
  the Player and \<^verbatim>\<open>Prefix.SetDPI(97)\<close> for the Studio; if that fails \<^verbatim>\<open>Main\<close> returns
  the wrapped error at once; otherwise it calls \<^verbatim>\<open>InstallWebView\<close>, and if that fails
  it returns the wrapped error; in both failures neither \<^verbatim>\<open>Setup\<close> nor \<^verbatim>\<open>Run\<close> is
  called. When both succeed \<^verbatim>\<open>Setup\<close> follows. If \<^verbatim>\<open>os.Stat\<close> succeeds and the flag
  is not set, there is no initialisation and no install: the first of these steps is
  \<^verbatim>\<open>Setup\<close>.
\<close>

theorem first_run_initialisation:
  assumes lf: "LogFile w (Type b) = Inr name"
  shows "(first_run w b \<or> FirstRun w \<longrightarrow>
            (case snd (prefix_init w (Type b)) of
               Some err \<Rightarrow>
                 res (Main w b args) =
                   Return (Some (Wrapf ''failed to init %s prefix: %w'' [ArgType (Type b)] err))
                 \<and> filter setup_event (flow (Main w b args)) = [fst (prefix_init w (Type b))]
             | None \<Rightarrow>
                 (case InstallWebView w (Main_open name b) of
                    (Some err, b2) \<Rightarrow>
                      res (Main w b args) =
                        Return (Some (Wrapf ''failed to install webview: %w'' [] err))
                      \<and> filter setup_event (flow (Main w b args)) =
                          [fst (prefix_init w (Type b)), CallInstallWebView]
                  | (None, b2) \<Rightarrow>
                      filter setup_event (flow (Main w b args)) =
                        fst (prefix_init w (Type b)) # CallInstallWebView # CallSetup
                          # (if fst (Setup w (fst (Main_protocol b2 args))) = None
                             then [CallRun args] else []))))
       \<and> (\<not> (first_run w b \<or> FirstRun w) \<longrightarrow>
            filter setup_event (flow (Main w b args)) =
              CallSetup
                # (if fst (Setup w (fst (Main_protocol (Main_open name b) args))) = None
                   then [CallRun args] else []))
       \<and> prefix_init w Player = (PrefixInit, Prefix_Init w)
       \<and> prefix_init w Studio = (PrefixSetDPI 97, Prefix_SetDPI w 97)"
proof -
  note m = Main_flow_setup [OF lf]
  let ?b1 = "Main_open name b"
  have ty: "Type ?b1 = Type b" by (rule Type_open)
  have first: "first_run w b \<or> FirstRun w \<longrightarrow>
            (case snd (prefix_init w (Type b)) of
               Some err \<Rightarrow>
                 res (Main w b args) =
                   Return (Some (Wrapf ''failed to init %s prefix: %w'' [ArgType (Type b)] err))
                 \<and> filter setup_event (flow (Main w b args)) = [fst (prefix_init w (Type b))]
             | None \<Rightarrow>
                 (case InstallWebView w (Main_open name b) of
                    (Some err, b2) \<Rightarrow>
                      res (Main w b args) =
                        Return (Some (Wrapf ''failed to install webview: %w'' [] err))
                      \<and> filter setup_event (flow (Main w b args)) =
                          [fst (prefix_init w (Type b)), CallInstallWebView]
                  | (None, b2) \<Rightarrow>
                      filter setup_event (flow (Main w b args)) =
                        fst (prefix_init w (Type b)) # CallInstallWebView # CallSetup
                          # (if fst (Setup w (fst (Main_protocol b2 args))) = None
                             then [CallRun args] else [])))"
  proof
    assume fr: "first_run w b \<or> FirstRun w"
    show "(case snd (prefix_init w (Type b)) of
               Some err \<Rightarrow>
                 res (Main w b args) =
                   Return (Some (Wrapf ''failed to init %s prefix: %w'' [ArgType (Type b)] err))
                 \<and> filter setup_event (flow (Main w b args)) = [fst (prefix_init w (Type b))]
             | None \<Rightarrow>
                 (case InstallWebView w (Main_open name b) of
                    (Some err, b2) \<Rightarrow>
                      res (Main w b args) =
                        Return (Some (Wrapf ''failed to install webview: %w'' [] err))
                      \<and> filter setup_event (flow (Main w b args)) =
                          [fst (prefix_init w (Type b)), CallInstallWebView]
                  | (None, b2) \<Rightarrow>
                      filter setup_event (flow (Main w b args)) =
                        fst (prefix_init w (Type b)) # CallInstallWebView # CallSetup
                          # (if fst (Setup w (fst (Main_protocol b2 args))) = None
                             then [CallRun args] else [])))"
    proof (cases "snd (prefix_init w (Type b))")
      case (Some err)
      then have "snd (prefix_init w (Type ?b1)) = Some err" by (simp add: ty)
      from Main_steps_init_failed [OF fr this, of args] Some show ?thesis
        by (simp add: m ty)
    next
      case None
      then have ok: "snd (prefix_init w (Type ?b1)) = None" by (simp add: ty)
      obtain e b2 where iw: "InstallWebView w ?b1 = (e, b2)" by (cases "InstallWebView w ?b1")
      show ?thesis
      proof (cases e)
        case inone: None
        with iw have "InstallWebView w ?b1 = (None, b2)" by simp
        from Main_steps_install_ok [OF fr ok this, of args] None iw inone show ?thesis
          by (simp add: m ty)
      next
        case (Some err)
        with iw have "InstallWebView w ?b1 = (Some err, b2)" by simp
        from Main_steps_install_failed [OF fr ok this, of args] None iw Some show ?thesis
          by (simp add: m ty)
      qed
    qed
  qed
  have notfirst: "\<not> (first_run w b \<or> FirstRun w) \<longrightarrow>
            filter setup_event (flow (Main w b args)) =
              CallSetup
                # (if fst (Setup w (fst (Main_protocol (Main_open name b) args))) = None
                   then [CallRun args] else [])"
    using Main_steps_not_first [of "first_run w b" w ?b1 args] by (simp add: m)
  from first notfirst show ?thesis by simp
qed

theorem first_run_initialisation_witness:
  "LogFile w_first (Type b0) =
     Inr ''/logs/player.log''
   \<and> first_run w_first b0
   \<and> filter setup_event
        (flow (Main w_first b0 [])) =
       [PrefixInit, CallInstallWebView, CallSetup, CallRun []]
   \<and> res (Main w_first_init_fails b0 []) =
       Return (Some (Wrapf ''failed to init %s prefix: %w'' [ArgType Player]
                      (Opaque ''wineboot failed'')))
   \<and> filter setup_event
        (flow (Main w_first_init_fails b0 [])) =
       [PrefixInit]
   \<and> \<not> first_run w0 b0 \<and> \<not> FirstRun w0
   \<and> filter setup_event (flow (Main w0 b0 [])) = [CallSetup, CallRun []]"
proof -
  let ?w1 = "w_first"
  let ?w2 = "w_first_init_fails"
  have lf: "LogFile w0 (Type b0) = Inr ''/logs/player.log''"
    "LogFile ?w1 (Type b0) = Inr ''/logs/player.log''"
    "LogFile ?w2 (Type b0) = Inr ''/logs/player.log''"
    by (simp_all add: w_first_def w_first_init_fails_def w0_def)
  have fr: "\<not> first_run w0 b0" "\<not> FirstRun w0" "first_run ?w1 b0" "first_run ?w2 b0"
    by (simp_all add: first_run_def w_first_def w_first_init_fails_def w0_def)
  have ty: "Type b0 = Player" by (simp add: b0_def)
  have pi: "snd (prefix_init ?w1 Player) = None"
    "snd (prefix_init ?w2 Player) = Some (Opaque ''wineboot failed'')"
    "fst (prefix_init ?w1 Player) = PrefixInit"
    by (simp_all add: w_first_def w_first_init_fails_def w0_def)
  have iw: "InstallWebView ?w1 (Main_open ''/logs/player.log'' b0) =
              (None, Main_open ''/logs/player.log'' b0)"
    by (simp add: w_first_def w0_def)
  have su: "fst (Setup w0 x) = None" "fst (Setup ?w1 x) = None" for x
    by (simp_all add: w_first_def w_first_init_fails_def w0_def)
  from first_run_initialisation [OF lf(2), of "[]"] fr(3) pi(1,3) iw su(2)
  have a: "filter setup_event (flow (Main ?w1 b0 [])) =
       [PrefixInit, CallInstallWebView, CallSetup, CallRun []]"
    by (simp add: ty)
  from first_run_initialisation [OF lf(3), of "[]"] fr(4) pi(2)
  have b: "res (Main ?w2 b0 []) =
       Return (Some (Wrapf ''failed to init %s prefix: %w'' [ArgType Player]
                      (Opaque ''wineboot failed'')))
     \<and> filter setup_event (flow (Main ?w2 b0 [])) = [PrefixInit]"
    by (simp add: ty)
  from first_run_initialisation [OF lf(1), of "[]"] fr(1,2) su(1)
  have c: "filter setup_event (flow (Main w0 b0 [])) = [CallSetup, CallRun []]"
    by simp
  from lf(2) fr a b c show ?thesis by simp
qed

text \<open>
  The claim as first stated speaks of every run in which the marker directory is absent
  or the flag is set. When the log file cannot be created \<^verbatim>\<open>Main\<close> returns the
  wrapped error before it looks at the prefix: nothing is initialised and nothing is
  installed, although both conditions hold.
\<close>

theorem first_run_log_file_counterexample:
  "FirstRun w_first_no_log
   \<and> first_run w_first_no_log b0
   \<and> res (Main w_first_no_log b0 []) =
       Return (Some (Wrapf ''create log file: %w'' [] (Opaque ''permission denied'')))
   \<and> filter setup_event
        (flow (Main w_first_no_log b0 [])) = []"
  by (simp add: first_run_def Main_def new_splash_def conc_defs)

section \<open>The protocol step of \<^verbatim>\<open>Main\<close>\<close>

lemma run_event_not_desc: "run_event e \<Longrightarrow> e \<noteq> SplashSetDesc c"
  by (cases e) simp_all

lemma Run_flow_desc: "SplashSetDesc c \<notin> set (flow (Run w b args))"
  using Run_flow_events [of w b args] run_event_not_desc by blast

lemma Main_protocol_desc: "SplashSetDesc c \<notin> set (snd (Main_protocol b args))"
  using Main_protocol_trace [of b args] run_event_not_desc by blast

lemma Main_launch_desc:
  "SplashSetDesc c \<in> set (flow (Main_launch w b args)) \<longleftrightarrow> c = Channel (b_Config b)"
  using Run_flow_desc [of c w _ args]
  by (auto simp: Main_launch_def split: prod.splits option.splits)

lemma Main_init_desc: "SplashSetDesc c \<notin> set (snd (snd (Main_init w fr b)))"
  by (cases "Type b") (auto simp: Main_init_def split: option.splits prod.splits)

lemma Main_steps_desc:
  assumes "Main_init w fr b = (None, b2, t)"
  shows "SplashSetDesc c \<in> set (flow (Main_steps w fr b args)) \<longleftrightarrow>
           c = spec_channel args (Channel (b_Config b2))"
  using assms Main_init_desc [of c w fr b] Main_protocol_desc [of c b2 args]
  by (simp add: Main_steps_def Let_def Main_launch_desc Main_protocol_channel)

lemma Main_flow_desc:
  assumes "LogFile w (Type b) = Inr name"
  shows "SplashSetDesc c \<in> set (flow (Main w b args)) \<longleftrightarrow>
           SplashSetDesc c \<in> set (flow (Main_steps w (first_run w b) (Main_open name b) args))"
  using assms by (auto simp add: Main_def Main_deferred_def Let_def first_run_open)

text \<open>
  Claim C1, as amended. \<^verbatim>\<open>HandleProtocolURI\<close> splits its argument on \<^verbatim>\<open>+\<close> and each token on
  \<^verbatim>\<open>:\<close>; afterwards the channel is the value of the last token of exactly two parts
  with the key \<^verbatim>\<open>channel\<close> and a value that is not empty, and it is the old channel when
  there is no such token. Tokens with an empty value, with another number of parts or
  with another key change nothing. The protocol step of \<^verbatim>\<open>Main\<close> calls it exactly when
  there is one argument; with any other number of arguments the step leaves the
  \<^verbatim>\<open>Binary\<close> as it is and logs nothing. An invocation of \<^verbatim>\<open>Main\<close> reaches this
  step when the log file could be created and the initialisation of the prefix, if
  there is one, did not fail; then the description of the splash window is set to
  exactly this channel, and to no other value.
\<close>

theorem protocol_channel_last_wins:
  "Channel (b_Config (fst (HandleProtocolURI b mime))) =
     (if spec_channel_values mime = [] then Channel (b_Config b)
      else last (spec_channel_values mime))
   \<and> Channel (b_Config (fst (Main_protocol b args))) = spec_channel args (Channel (b_Config b))
   \<and> (length args \<noteq> 1 \<longrightarrow> Main_protocol b args = (b, []))
   \<and> (\<forall>name b2 t c.
         LogFile w (Type b) = Inr name
         \<and> Main_init w (first_run w b) (Main_open name b) = (None, b2, t) \<longrightarrow>
         (SplashSetDesc c \<in> set (flow (Main w b args)) \<longleftrightarrow>
            c = spec_channel args (Channel (b_Config b2))))"
proof (intro conjI allI impI)
  show "Channel (b_Config (fst (HandleProtocolURI b mime))) =
     (if spec_channel_values mime = [] then Channel (b_Config b)
      else last (spec_channel_values mime))"
    by (rule HandleProtocolURI_channel)
  show "Channel (b_Config (fst (Main_protocol b args))) = spec_channel args (Channel (b_Config b))"
    by (rule Main_protocol_channel)
  show "Main_protocol b args = (b, [])" if "length args \<noteq> 1"
    using that by (simp add: Main_protocol_def)
next
  fix name b2 t c
  assume a: "LogFile w (Type b) = Inr name
         \<and> Main_init w (first_run w b) (Main_open name b) = (None, b2, t)"
  then show "SplashSetDesc c \<in> set (flow (Main w b args)) \<longleftrightarrow>
            c = spec_channel args (Channel (b_Config b2))"
    using Main_flow_desc [of w b name c args] Main_steps_desc [of w "first_run w b" "Main_open name b" b2 t c args]
    by simp
qed

theorem protocol_channel_last_wins_witness:
  "spec_channel_values mime0 = [''zfoo'', ''zbar'']
   \<and> Channel (b_Config (fst (HandleProtocolURI b0 mime0))) = ''zbar''
   \<and> length [mime0, mime0] \<noteq> 1
   \<and> Main_protocol b0 [mime0, mime0] = (b0, [])
   \<and> LogFile w0 (Type b0) = Inr ''/logs/player.log''
   \<and> Main_init w0 (first_run w0 b0) (Main_open ''/logs/player.log'' b0) =
       (None, Main_open ''/logs/player.log'' b0, [])
   \<and> SplashSetDesc ''zbar'' \<in> set (flow (Main w0 b0 [mime0]))"
proof -
  have h1: "LogFile w0 (Type b0) = Inr ''/logs/player.log''"
    by (simp add: conc_defs)
  have h2: "Main_init w0 (first_run w0 b0) (Main_open ''/logs/player.log'' b0) =
       (None, Main_open ''/logs/player.log'' b0, [])"
    by (simp add: Main_init_def first_run_def conc_defs)
  have c: "Channel (b_Config (Main_open ''/logs/player.log'' b0)) = ''LIVE''"
    by (simp add: Main_open_def set_output_def new_splash_def conc_defs)
  have s: "spec_channel [mime0] ''LIVE'' = ''zbar''"
    by (simp add: spec_channel_def mime0_values)
  from protocol_channel_last_wins [of b0 mime0 "[mime0, mime0]" w0] protocol_channel_last_wins [of b0 mime0 "[mime0]" w0]
    h1 h2 c s mime0_values
  show ?thesis by simp
qed


text \<open>
  The claim as first stated speaks of every invocation of \<^verbatim>\<open>Main\<close> with one extra
  argument. When the log file cannot be created \<^verbatim>\<open>Main\<close> returns before the protocol
  step: the argument is not parsed, and a well-formed \<^verbatim>\<open>channel\<close> token leaves the
  channel as it was.
\<close>

theorem protocol_step_not_reached_counterexample:
  "length [''channel:zfoo''] = 1
   \<and> spec_channel_values ''channel:zfoo'' = [''zfoo'']
   \<and> res (Main w_no_log b0 [''channel:zfoo'']) =
       Return (Some (Wrapf ''create log file: %w'' [] (Opaque ''permission denied'')))
   \<and> flow (Main w_no_log b0 [''channel:zfoo'']) =
       [SplashNew, EnvSetenv []]
   \<and> Channel (b_Config b0) = ''LIVE''
   \<and> Channel (b_Config
         (bin (Main w_no_log b0 [''channel:zfoo'']))) =
       ''LIVE''"
  by (simp add: spec_channel_values_def spec_token_value_def Main_def new_splash_def conc_defs)

section \<open>The goroutine of the splash window\<close>

lemma Main_splash_task:
  "LogFile w (Type b) = Inr name \<Longrightarrow> (SplashTask, splash_task w) \<in> set (tasks (Main w b args))"
  by (simp add: Main_def Main_deferred_def Let_def)

text \<open>
  Claim C6, as amended. In \<^verbatim>\<open>Binary.Main\<close> the goroutine of the splash window sends
  SIGINT to the own process when \<^verbatim>\<open>Splash.Run\<close> returns \<^verbatim>\<open>splash.ErrClosed\<close> (the
  window was closed); when \<^verbatim>\<open>Splash.Run\<close> returns any other error the goroutine calls
  \<^verbatim>\<open>log.Fatalf\<close>, which ends the process with status 1 and sends no signal; when it
  returns nil the goroutine ends without a signal. In the older \<^verbatim>\<open>main()\<close> every
  return of \<^verbatim>\<open>Splash.Run\<close>, with an error or without, is followed by exactly one
  SIGINT to the own process. \<^verbatim>\<open>Main\<close> starts the goroutine in every run that gets past
  the creation of the log file. So a closed window and a signal from outside take the
  same path, and an internal error of the window in \<^verbatim>\<open>Binary.Main\<close> does not.
\<close>

theorem splash_exit_signal:
  "(Splash_Run w = Some (Some ErrClosed) \<longrightarrow>
      splash_task w = ([Slog LWarn ''Splash window closed!'', SyscallKillSelf SIGINT], Finished))
   \<and> (\<forall>err. Splash_Run w = Some (Some err) \<and> err \<noteq> ErrClosed \<longrightarrow>
        splash_task w = ([LogFatalf ''splash: %s''], Exited 1))
   \<and> (Splash_Run w = Some None \<longrightarrow> splash_task w = ([], Finished))
   \<and> (\<forall>r. Splash_Run w = Some r \<longrightarrow>
        snd (main_splash_task w) = Finished
        \<and> last (fst (main_splash_task w)) = SyscallKillSelf SIGINT
        \<and> filter (\<lambda>e. e = SyscallKillSelf SIGINT) (fst (main_splash_task w)) =
            [SyscallKillSelf SIGINT])
   \<and> (\<forall>name. LogFile w (Type b) = Inr name \<longrightarrow>
        (SplashTask, splash_task w) \<in> set (tasks (Main w b args)))"
proof (intro conjI allI impI)
  show "splash_task w = ([Slog LWarn ''Splash window closed!'', SyscallKillSelf SIGINT], Finished)"
    if "Splash_Run w = Some (Some ErrClosed)"
    using that by (simp add: splash_task_def errors_Is_def)
  show "splash_task w = ([LogFatalf ''splash: %s''], Exited 1)"
    if "Splash_Run w = Some (Some err) \<and> err \<noteq> ErrClosed" for err
    using that by (auto simp add: splash_task_def errors_Is_def)
  show "splash_task w = ([], Finished)" if "Splash_Run w = Some None"
    using that by (simp add: splash_task_def errors_Is_def)
  show "snd (main_splash_task w) = Finished" if "Splash_Run w = Some r" for r
    using that by (simp add: main_splash_task_def)
  show "last (fst (main_splash_task w)) = SyscallKillSelf SIGINT" if "Splash_Run w = Some r" for r
    using that by (simp add: main_splash_task_def)
  show "filter (\<lambda>e. e = SyscallKillSelf SIGINT) (fst (main_splash_task w)) =
            [SyscallKillSelf SIGINT]" if "Splash_Run w = Some r" for r
    using that by (simp add: main_splash_task_def)
  show "(SplashTask, splash_task w) \<in> set (tasks (Main w b args))"
    if "LogFile w (Type b) = Inr name" for name
    using that by (rule Main_splash_task)
qed

theorem splash_exit_signal_witness:
  "Splash_Run w0 = Some (Some ErrClosed)
   \<and> splash_task w0 = ([Slog LWarn ''Splash window closed!'', SyscallKillSelf SIGINT], Finished)
   \<and> Splash_Run (w0\<lparr>Splash_Run := Some (Some (Opaque ''gpu device lost''))\<rparr>) =
       Some (Some (Opaque ''gpu device lost''))
   \<and> Opaque ''gpu device lost'' \<noteq> ErrClosed
   \<and> splash_task (w0\<lparr>Splash_Run := Some (Some (Opaque ''gpu device lost''))\<rparr>) =
       ([LogFatalf ''splash: %s''], Exited 1)
   \<and> last (fst (main_splash_task (w0\<lparr>Splash_Run := Some (Some (Opaque ''gpu device lost''))\<rparr>))) =
       SyscallKillSelf SIGINT
   \<and> LogFile w0 (Type b0) = Inr ''/logs/player.log''
   \<and> (SplashTask, splash_task w0) \<in> set (tasks (Main w0 b0 []))"
proof -
  let ?w1 = "w0\<lparr>Splash_Run := Some (Some (Opaque ''gpu device lost''))\<rparr>"
  have h: "Splash_Run w0 = Some (Some ErrClosed)"
    "Splash_Run ?w1 = Some (Some (Opaque ''gpu device lost''))"
    "Opaque ''gpu device lost'' \<noteq> ErrClosed"
    "LogFile w0 (Type b0) = Inr ''/logs/player.log''"
    by (simp_all add: w0_def)
  from splash_exit_signal [of w0 b0 "[]"] h(1,4)
  have a: "splash_task w0 = ([Slog LWarn ''Splash window closed!'', SyscallKillSelf SIGINT], Finished)
     \<and> (SplashTask, splash_task w0) \<in> set (tasks (Main w0 b0 []))"
    by blast
  from splash_exit_signal [of ?w1 b0 "[]"] h(2,3)
  have b: "splash_task ?w1 = ([LogFatalf ''splash: %s''], Exited 1)
     \<and> last (fst (main_splash_task ?w1)) = SyscallKillSelf SIGINT"
    by blast
  from h a b show ?thesis by blast
qed

text \<open>
  The claim as first stated, that an internal error of the splash window also ends in
  an interrupt, fails in \<^verbatim>\<open>Binary.Main\<close>: with an error other than
  \<^verbatim>\<open>splash.ErrClosed\<close> the goroutine only calls \<^verbatim>\<open>log.Fatalf\<close>.
\<close>

theorem splash_internal_error_counterexample:
  "Splash_Run (w0\<lparr>Splash_Run := Some (Some (Opaque ''gpu device lost''))\<rparr>) =
       Some (Some (Opaque ''gpu device lost''))
   \<and> (SplashTask, splash_task (w0\<lparr>Splash_Run := Some (Some (Opaque ''gpu device lost''))\<rparr>))
        \<in> set (tasks (Main (w0\<lparr>Splash_Run := Some (Some (Opaque ''gpu device lost''))\<rparr>) b0 []))
   \<and> splash_task (w0\<lparr>Splash_Run := Some (Some (Opaque ''gpu device lost''))\<rparr>) =
       ([LogFatalf ''splash: %s''], Exited 1)
   \<and> SyscallKillSelf SIGINT
        \<notin> set (fst (splash_task (w0\<lparr>Splash_Run := Some (Some (Opaque ''gpu device lost''))\<rparr>)))"
  by (simp add: splash_task_def errors_Is_def Main_def Main_deferred_def Let_def w0_def)


end
